theory Spec2Isabelle
  imports Complex_Main
begin

section \<open>Numbers, timestamps and errors\<close>

text \<open>
  The engine of \<^verbatim>\<open>src/strategy/base_strategy.py\<close> computes on pandas columns of
  64-bit floats. Finite floats are modelled by the real number they denote (no rounding
  error, no overflow); the three non-finite values that numpy produces where the code
  divides by zero are kept apart, so that a division by zero is never the \<open>0\<close> that
  HOL's total division returns. Zero has one sign: the float \<^verbatim>\<open>-0.0\<close> is the
  number 0. The columns that \<^verbatim>\<open>backtest\<close> creates from an integer constant
  stay integer columns in pandas for as long as only whole numbers are written into them;
  their values are the same numbers, and the one place where the kind of the column
  shows, the entry \<^verbatim>\<open>total_return\<close> of the metrics, is modelled there.
\<close>

datatype pyfloat = Fin real | PInf | NInf | NaN

fun fneg :: "pyfloat \<Rightarrow> pyfloat" where
  "fneg (Fin a) = Fin (- a)"
| "fneg PInf = NInf"
| "fneg NInf = PInf"
| "fneg NaN = NaN"

fun fadd :: "pyfloat \<Rightarrow> pyfloat \<Rightarrow> pyfloat" where
  "fadd NaN _ = NaN"
| "fadd _ NaN = NaN"
| "fadd (Fin a) (Fin b) = Fin (a + b)"
| "fadd PInf NInf = NaN"
| "fadd NInf PInf = NaN"
| "fadd PInf _ = PInf"
| "fadd NInf _ = NInf"
| "fadd (Fin a) b = b"

definition fsub :: "pyfloat \<Rightarrow> pyfloat \<Rightarrow> pyfloat" where
  "fsub a b = fadd a (fneg b)"

text \<open>The sign of a product or quotient with an infinite operand.\<close>

definition signed_inf :: "bool \<Rightarrow> pyfloat" where
  "signed_inf negative = (if negative then NInf else PInf)"

fun fmul :: "pyfloat \<Rightarrow> pyfloat \<Rightarrow> pyfloat" where
  "fmul NaN _ = NaN"
| "fmul _ NaN = NaN"
| "fmul (Fin a) (Fin b) = Fin (a * b)"
| "fmul (Fin a) PInf = (if a = 0 then NaN else signed_inf (a < 0))"
| "fmul (Fin a) NInf = (if a = 0 then NaN else signed_inf (0 < a))"
| "fmul PInf (Fin b) = (if b = 0 then NaN else signed_inf (b < 0))"
| "fmul NInf (Fin b) = (if b = 0 then NaN else signed_inf (0 < b))"
| "fmul PInf PInf = PInf"
| "fmul PInf NInf = NInf"
| "fmul NInf PInf = NInf"
| "fmul NInf NInf = PInf"

fun fdiv :: "pyfloat \<Rightarrow> pyfloat \<Rightarrow> pyfloat" where
  "fdiv NaN _ = NaN"
| "fdiv _ NaN = NaN"
| "fdiv (Fin a) (Fin b) =
     (if b \<noteq> 0 then Fin (a / b)
      else if 0 < a then PInf else if a < 0 then NInf else NaN)"
| "fdiv (Fin a) _ = Fin 0"
| "fdiv PInf (Fin b) = signed_inf (b < 0)"
| "fdiv NInf (Fin b) = signed_inf (0 \<le> b)"
| "fdiv _ _ = NaN"

fun fabs :: "pyfloat \<Rightarrow> pyfloat" where
  "fabs (Fin a) = Fin \<bar>a\<bar>"
| "fabs PInf = PInf"
| "fabs NInf = PInf"
| "fabs NaN = NaN"

text \<open>\<^verbatim>\<open>value > 0\<close>: false for NaN.\<close>

fun fpos :: "pyfloat \<Rightarrow> bool" where
  "fpos (Fin a) = (0 < a)"
| "fpos PInf = True"
| "fpos _ = False"

text \<open>
  A pandas \<^verbatim>\<open>Timestamp\<close> is a count of nanoseconds since the epoch; the
  \<^verbatim>\<open>.days\<close> of a difference of two timestamps is its number of whole days,
  rounded down.
\<close>

type_synonym timestamp = int

definition timedelta_days :: "timestamp \<Rightarrow> timestamp \<Rightarrow> int" where
  "timedelta_days a b = (a - b) div 86400000000000"

text \<open>
  The exceptions that the modelled code can raise.
  \<^item> \<open>TypeError\<close>: \<^verbatim>\<open>date - entry_date\<close> while \<^verbatim>\<open>entry_date\<close> is still
    \<^verbatim>\<open>None\<close>.
  \<^item> \<open>ValueError\<close>: \<^verbatim>\<open>float\<close> of a string that is no number; the format code
    \<^verbatim>\<open>f\<close> applied to a string.
  \<^item> \<open>NonFiniteToInt\<close>: \<^verbatim>\<open>int(cash // price)\<close> when the floor division by a zero
    price is infinite or NaN (\<^verbatim>\<open>OverflowError\<close> or \<^verbatim>\<open>ValueError\<close>).
  \<^item> \<open>IndexError\<close>: \<^verbatim>\<open>.iloc[-1]\<close> or \<^verbatim>\<open>.index[-1]\<close> of an empty table.
  \<^item> \<open>KeyError\<close>: a column that the table does not have.
  \<^item> \<open>LengthMismatch\<close>: the \<^verbatim>\<open>ValueError\<close> of assigning eight column names to
    \<^verbatim>\<open>pd.DataFrame([])\<close>, a table that has no column.
  \<^item> \<open>ZeroDivisionError\<close>: a division of Python integers by zero.
\<close>

datatype error =
  TypeError | ValueError | NonFiniteToInt | IndexError | KeyError | LengthMismatch
  | ZeroDivisionError

section \<open>The position simulator: \<^verbatim>\<open>BaseStrategy.backtest\<close>\<close>

text \<open>
  A table is a list of rows. The input of lines 29 to 143 is the price table after the
  strategy has attached its signals (\<^verbatim>\<open>calculate_indicators\<close> and
  \<^verbatim>\<open>generate_signals\<close> are abstract in \<^verbatim>\<open>BaseStrategy\<close>; the call with
  its copy and its two hooks is modelled further down): each row carries its index
  value, its close and its \<^verbatim>\<open>signal_line\<close>. The columns that
  \<^verbatim>\<open>backtest\<close> writes cell by cell are further fields of the row; the columns
  assigned as a whole later on are optional columns of the table.
\<close>

record bar =
  date :: timestamp
  Close :: real
  signal_line :: int

record row = bar +
  position :: int
  cash :: real
  holdings :: real
  total_value :: real
  returns :: pyfloat

record dataframe =
  rows :: "row list"
  cumulative_returns :: "pyfloat list option"
  previous_peak :: "real list option"
  drawdown :: "pyfloat list option"

datatype position_type = LONG | SHORT

record trade =
  entry_date :: timestamp
  exit_date :: timestamp
  entry_price :: real
  exit_price :: real
  position_type :: position_type
  profit_loss :: real
  profit_loss_pct :: pyfloat
  trade_duration :: int

text \<open>
  The local variables of \<^verbatim>\<open>backtest\<close> together with the table it works on.
  \<open>entry_price_v\<close> and \<open>entry_date_v\<close> are the variables \<^verbatim>\<open>entry_price\<close> and
  \<^verbatim>\<open>entry_date\<close> (the latter starts as \<^verbatim>\<open>None\<close>).
\<close>

record sim =
  df :: "row list"
  trades :: "trade list"
  current_position :: int
  entry_price_v :: real
  entry_date_v :: "timestamp option"

text \<open>Lines 30 to 34: the portfolio columns, one constant per column.\<close>

definition portfolio_columns :: "real \<Rightarrow> bar \<Rightarrow> row" where
  "portfolio_columns initial_capital b =
     \<lparr>date = date b, Close = Close b, signal_line = signal_line b,
      position = 0, cash = initial_capital, holdings = 0,
      total_value = initial_capital, returns = Fin 0\<rparr>"

definition init_sim :: "real \<Rightarrow> bar list \<Rightarrow> sim" where
  "init_sim initial_capital bars =
     \<lparr>df = map (portfolio_columns initial_capital) bars, trades = [],
      current_position = 0, entry_price_v = 0, entry_date_v = None\<rparr>"

text \<open>Lines 47 to 49: carry the position and the previous row's cash forward.\<close>

definition carry_forward :: "nat \<Rightarrow> sim \<Rightarrow> sim" where
  "carry_forward i s =
     (let r = df s ! i; price = Close r in
      s\<lparr>df := (df s)[i := r\<lparr>position := current_position s,
                              cash := cash (df s ! (i - 1)),
                              holdings := of_int (current_position s) * price\<rparr>]\<rparr>)"

text \<open>Lines 57 to 73: the trade recorded when an opposing signal closes the position.\<close>

definition closed_trade :: "int \<Rightarrow> real \<Rightarrow> timestamp \<Rightarrow> real \<Rightarrow> timestamp \<Rightarrow> trade" where
  "closed_trade cp entry_p entry_d price d =
     (let exit_p = price in
      \<lparr>entry_date = entry_d, exit_date = d, entry_price = entry_p, exit_price = exit_p,
       position_type = (if cp > 0 then LONG else SHORT),
       profit_loss = (if cp > 0 then (exit_p - entry_p) * of_int \<bar>cp\<bar>
                      else (entry_p - exit_p) * of_int \<bar>cp\<bar>),
       profit_loss_pct =
         (if cp > 0 then fmul (fsub (fdiv (Fin exit_p) (Fin entry_p)) (Fin 1)) (Fin 100)
          else fmul (fsub (fdiv (Fin entry_p) (Fin exit_p)) (Fin 1)) (Fin 100)),
       trade_duration = timedelta_days d entry_d\<rparr>)"

text \<open>Lines 52 to 78: close the position on an opposing signal.\<close>

definition close_on_signal :: "nat \<Rightarrow> sim \<Rightarrow> error + sim" where
  "close_on_signal i s =
     (let r = df s ! i; price = Close r; signal = signal_line r; cp = current_position s in
      if (signal = 1 \<and> cp < 0) \<or> (signal = - 1 \<and> cp > 0) then
        (case entry_date_v s of
           None \<Rightarrow> Inl TypeError
         | Some entry_d \<Rightarrow>
             Inr (s\<lparr>trades := trades s @ [closed_trade cp (entry_price_v s) entry_d price (date r)],
                    df := (df s)[i := r\<lparr>cash := cash r + of_int cp * price,
                                          position := 0, holdings := 0\<rparr>],
                    current_position := 0\<rparr>))
      else Inr s)"

text \<open>
  Lines 81 to 99: open a position when flat. \<^verbatim>\<open>cash // price\<close> is a floor division
  of floats, and \<^verbatim>\<open>int\<close> raises on its result when the price is zero.
\<close>

definition open_on_signal :: "nat \<Rightarrow> sim \<Rightarrow> error + sim" where
  "open_on_signal i s =
     (if current_position s = 0 then
        (let r = df s ! i; price = Close r; signal = signal_line r in
         if price = 0 then Inl NonFiniteToInt
         else
           (let shares_to_trade = \<lfloor>cash r / price\<rfloor>;
                s1 = (if signal = 1 \<and> shares_to_trade > 0 then
                        s\<lparr>current_position := shares_to_trade, entry_price_v := price,
                          entry_date_v := Some (date r),
                          df := (df s)[i := r\<lparr>cash := cash r - of_int shares_to_trade * price\<rparr>]\<rparr>
                      else if signal = - 1 \<and> shares_to_trade > 0 then
                        s\<lparr>current_position := - shares_to_trade, entry_price_v := price,
                          entry_date_v := Some (date r),
                          df := (df s)[i := r\<lparr>cash := cash r + of_int shares_to_trade * price\<rparr>]\<rparr>
                      else s)
            in Inr (s1\<lparr>df := (df s1)[i := (df s1 ! i)\<lparr>position := current_position s1,
                                 holdings := of_int (current_position s1) * price\<rparr>]\<rparr>)))
      else Inr s)"

text \<open>Lines 102 and 103: the row's total value and its return over the previous row.\<close>

definition update_value :: "nat \<Rightarrow> sim \<Rightarrow> sim" where
  "update_value i s =
     (let r = df s ! i; tv = cash r + holdings r in
      s\<lparr>df := (df s)[i := r\<lparr>total_value := tv,
                              returns := fsub (fdiv (Fin tv) (Fin (total_value (df s ! (i - 1)))))
                                              (Fin 1)\<rparr>]\<rparr>)"

text \<open>The body of the loop of line 41, for one index.\<close>

definition step :: "nat \<Rightarrow> sim \<Rightarrow> error + sim" where
  "step i s =
     (case close_on_signal i (carry_forward i s) of
        Inl e \<Rightarrow> Inl e
      | Inr s1 \<Rightarrow>
          (case open_on_signal i s1 of
             Inl e \<Rightarrow> Inl e
           | Inr s2 \<Rightarrow> Inr (update_value i s2)))"

text \<open>\<^verbatim>\<open>for i in range(1, len(df))\<close>: an exception leaves the loop.\<close>

fun loop :: "nat list \<Rightarrow> sim \<Rightarrow> error + sim" where
  "loop [] s = Inr s"
| "loop (i # is) s = (case step i s of Inl e \<Rightarrow> Inl e | Inr s' \<Rightarrow> loop is s')"

definition run_loop :: "bar list \<Rightarrow> real \<Rightarrow> error + sim" where
  "run_loop bars initial_capital =
     loop [1..<length bars] (init_sim initial_capital bars)"

text \<open>
  Lines 106 to 125: the trade appended for a position that is still open after the last
  row. The block repeats the formulas of lines 57 to 73 with the last row's close and
  index value; nothing of the table is written.
\<close>

definition final_trade :: "int \<Rightarrow> real \<Rightarrow> timestamp \<Rightarrow> row \<Rightarrow> trade" where
  "final_trade cp entry_p entry_d last_row =
     (let exit_p = Close last_row in
      \<lparr>entry_date = entry_d, exit_date = date last_row,
       entry_price = entry_p, exit_price = exit_p,
       position_type = (if cp > 0 then LONG else SHORT),
       profit_loss = (if cp > 0 then (exit_p - entry_p) * of_int \<bar>cp\<bar>
                      else (entry_p - exit_p) * of_int \<bar>cp\<bar>),
       profit_loss_pct =
         (if cp > 0 then fmul (fsub (fdiv (Fin exit_p) (Fin entry_p)) (Fin 1)) (Fin 100)
          else fmul (fsub (fdiv (Fin entry_p) (Fin exit_p)) (Fin 1)) (Fin 100)),
       trade_duration = timedelta_days (date last_row) entry_d\<rparr>)"

definition close_remaining :: "sim \<Rightarrow> error + trade list" where
  "close_remaining s =
     (if current_position s \<noteq> 0 then
        (if df s = [] then Inl IndexError
         else (case entry_date_v s of
                 None \<Rightarrow> Inl TypeError
               | Some entry_d \<Rightarrow>
                   Inr (trades s @ [final_trade (current_position s) (entry_price_v s)
                                       entry_d (last (df s))])))
      else Inr (trades s))"

text \<open>
  Line 128: \<^verbatim>\<open>(1 + df['returns']).cumprod() - 1\<close>. The cumulative product of pandas
  skips NaN: a NaN entry counts as 1 in the running product and is NaN in the result.
\<close>

fun cumprod :: "pyfloat \<Rightarrow> pyfloat list \<Rightarrow> pyfloat list" where
  "cumprod acc [] = []"
| "cumprod acc (x # xs) =
     (if x = NaN then NaN # cumprod acc xs
      else fmul acc x # cumprod (fmul acc x) xs)"

definition cumulative :: "row list \<Rightarrow> pyfloat list" where
  "cumulative rs =
     map (\<lambda>p. fsub p (Fin 1)) (cumprod (Fin 1) (map (\<lambda>r. fadd (Fin 1) (returns r)) rs))"

text \<open>
  Lines 131 to 141: \<^verbatim>\<open>pd.DataFrame(trades)\<close> has the eight columns of the
  dictionaries when there is a trade, and no column when the list is empty; naming eight
  columns then raises.
\<close>

definition trades_table :: "trade list \<Rightarrow> error + trade list" where
  "trades_table ts = (if ts = [] then Inl LengthMismatch else Inr ts)"

text \<open>Line 128 and the table that is returned: what the loop left, with the new column.\<close>

definition augmented :: "sim \<Rightarrow> dataframe" where
  "augmented s =
     \<lparr>rows = df s, cumulative_returns = Some (cumulative (df s)),
      previous_peak = None, drawdown = None\<rparr>"

definition backtest :: "bar list \<Rightarrow> real \<Rightarrow> error + (dataframe \<times> trade list)" where
  "backtest bars initial_capital =
     (case run_loop bars initial_capital of
        Inl e \<Rightarrow> Inl e
      | Inr s \<Rightarrow>
          (case close_remaining s of
             Inl e \<Rightarrow> Inl e
           | Inr ts \<Rightarrow>
               (let result = augmented s
                in case trades_table ts of
                     Inl e \<Rightarrow> Inl e
                   | Inr trades_df \<Rightarrow> Inr (result, trades_df))))"

section \<open>Tables as objects: the call of \<^verbatim>\<open>backtest\<close> and the strategy hooks\<close>

text \<open>
  What a call does to the tables that exist is modelled on a store: the list of the table
  objects, a reference being a position in it and a new object going to its end. A
  table without a signal column is modelled by its index and its closes, a table with one
  by its bars, and a table with the portfolio columns by its rows and its optional
  columns; the other columns, among them the indicators of the hooks, are not modelled.
\<close>

type_synonym ref = nat

datatype obj = Prices "(timestamp \<times> real) list" | Signals "bar list" | Frame dataframe

type_synonym store = "obj list"

text \<open>
  \<^verbatim>\<open>calculate_indicators\<close> and \<^verbatim>\<open>generate_signals\<close> are abstract methods:
  a hook is given the store and the table to work on, and leaves a store and the table
  it returns, or an exception. \<^verbatim>\<open>backtest\<close> reads one attribute of the strategy,
  \<^verbatim>\<open>initial_capital\<close>, and assigns none, and neither do the hooks of the four
  strategies of the repository: the strategy is a value.
\<close>

type_synonym hook = "store \<Rightarrow> ref \<Rightarrow> store \<times> (error + ref)"

record strategy =
  initial_capital :: real
  calculate_indicators :: hook
  generate_signals :: hook






text \<open>
  The hooks of \<^verbatim>\<open>BuyHoldStrategy\<close>: no indicator; a signal column of zeros with
  a buy at row 1 and then a sell at the last row, the first of which raises on a table of
  fewer than two rows.
\<close>

fun table_length :: "obj \<Rightarrow> nat" where
  "table_length (Prices ps) = length ps"
| "table_length (Signals bs) = length bs"
| "table_length (Frame d) = length (rows d)"

fun set_signal_line :: "obj \<Rightarrow> int list \<Rightarrow> obj" where
  "set_signal_line (Prices ps) signals =
     Signals (map (\<lambda>((t, c), s). \<lparr>date = t, Close = c, signal_line = s\<rparr>) (zip ps signals))"
| "set_signal_line (Signals bs) signals =
     Signals (map (\<lambda>(b, s). b\<lparr>signal_line := s\<rparr>) (zip bs signals))"
| "set_signal_line (Frame d) signals =
     Frame (d\<lparr>rows := map (\<lambda>(r, s). r\<lparr>signal_line := s\<rparr>) (zip (rows d) signals)\<rparr>)"


definition buy_hold_signals :: hook where
  "buy_hold_signals st r =
     (let n = table_length (st ! r); zeros = replicate n 0 in
      if n < 2 then (st[r := set_signal_line (st ! r) zeros], Inl IndexError)
      else (st[r := set_signal_line (st ! r) (zeros[1 := 1, n - 1 := - 1])], Inr r))"










section \<open>Display strings: \<^verbatim>\<open>f"{value:.2f}"\<close>, \<^verbatim>\<open>str.split\<close> and \<^verbatim>\<open>float\<close>\<close>

text \<open>
  A Python string is modelled by its UTF-8 bytes. The two arrows are U+2191 and U+2193; the
  day label is \<^verbatim>\<open>g\<close>, U+00FC, \<^verbatim>\<open>n\<close>.
\<close>

definition up_arrow :: string where
  "up_arrow = [CHR 0xE2, CHR 0x86, CHR 0x91]"

definition down_arrow :: string where
  "down_arrow = [CHR 0xE2, CHR 0x86, CHR 0x93]"

definition day_label :: string where
  "day_label = [CHR ''g'', CHR 0xC3, CHR 0xBC, CHR ''n'']"

definition digit_char :: "nat \<Rightarrow> char" where
  "digit_char d =
     (if d = 0 then CHR ''0'' else if d = 1 then CHR ''1'' else if d = 2 then CHR ''2''
      else if d = 3 then CHR ''3'' else if d = 4 then CHR ''4'' else if d = 5 then CHR ''5''
      else if d = 6 then CHR ''6'' else if d = 7 then CHR ''7'' else if d = 8 then CHR ''8''
      else CHR ''9'')"

function string_of_nat :: "nat \<Rightarrow> string" where
  "string_of_nat n =
     (if n < 10 then [digit_char n] else string_of_nat (n div 10) @ [digit_char (n mod 10)])"
  by pat_completeness auto
termination
  by (relation "measure id") auto

declare string_of_nat.simps [simp del]

text \<open>
  The fixed-point format rounds the exact value of the float to the nearest decimal of the
  requested precision, a tie going to the even last digit.
\<close>

definition round_half_even :: "real \<Rightarrow> int" where
  "round_half_even x =
     (let f = \<lfloor>x\<rfloor>; d = x - of_int f in
      if d < 1 / 2 then f else if 1 / 2 < d then f + 1 else if even f then f else f + 1)"

text \<open>The digits of a magnitude with \<open>k\<close> decimals, for \<open>k\<close> at least 1.\<close>

definition fixed_point :: "nat \<Rightarrow> real \<Rightarrow> string" where
  "fixed_point k a =
     (let n = nat (round_half_even (a * 10 ^ k)); decimals = string_of_nat (n mod 10 ^ k) in
      string_of_nat (n div 10 ^ k) @ ''.'' @ replicate (k - length decimals) (CHR ''0'') @ decimals)"

fun format_f :: "nat \<Rightarrow> pyfloat \<Rightarrow> string" where
  "format_f k (Fin a) = (if a < 0 then ''-'' else []) @ fixed_point k \<bar>a\<bar>"
| "format_f k PInf = ''inf''"
| "format_f k NInf = ''-inf''"
| "format_f k NaN = ''nan''"

text \<open>
  \<^verbatim>\<open>s.split()[0]\<close>: the first run of characters that are not blank, if there is
  one. The blanks are the ten of ASCII; the blanks beyond ASCII, which take several bytes,
  are not recognised, and no string written by the metrics computation holds one.
\<close>

definition is_space :: "char \<Rightarrow> bool" where
  "is_space c \<longleftrightarrow>
     c \<in> set [CHR '' '', CHR 0x09, CHR 0x0A, CHR 0x0B, CHR 0x0C, CHR 0x0D,
              CHR 0x1C, CHR 0x1D, CHR 0x1E, CHR 0x1F]"

definition first_token :: "string \<Rightarrow> string option" where
  "first_token s =
     (let t = dropWhile is_space s in
      if t = [] then None else Some (takeWhile (\<lambda>c. \<not> is_space c) t))"

text \<open>
  \<^verbatim>\<open>float(token)\<close> on the notations that the fixed-point format writes: an optional
  sign, then digits with an optional point, or \<^verbatim>\<open>inf\<close>, or \<^verbatim>\<open>nan\<close>. The other
  spellings that Python accepts (exponents, underscores, capital letters) are read as
  unparsable here; no string written by the metrics computation has them.
\<close>

definition digit_val :: "char \<Rightarrow> nat option" where
  "digit_val c = find (\<lambda>d. digit_char d = c) [0, 1, 2, 3, 4, 5, 6, 7, 8, 9]"

definition is_digit :: "char \<Rightarrow> bool" where
  "is_digit c \<longleftrightarrow> digit_val c \<noteq> None"

definition nat_of_digits :: "string \<Rightarrow> nat" where
  "nat_of_digits s = foldl (\<lambda>a c. 10 * a + (case digit_val c of Some d \<Rightarrow> d | None \<Rightarrow> 0)) 0 s"

definition parse_unsigned :: "string \<Rightarrow> real option" where
  "parse_unsigned s =
     (let whole = takeWhile is_digit s; rest = dropWhile is_digit s in
      case rest of
        [] \<Rightarrow> if whole = [] then None else Some (of_nat (nat_of_digits whole))
      | c # decimals \<Rightarrow>
          if c = CHR ''.'' \<and> list_all is_digit decimals \<and> (whole \<noteq> [] \<or> decimals \<noteq> [])
          then Some (of_nat (nat_of_digits whole) + of_nat (nat_of_digits decimals) / 10 ^ length decimals)
          else None)"

definition parse_signed :: "bool \<Rightarrow> string \<Rightarrow> pyfloat option" where
  "parse_signed negative body =
     (if body = ''inf'' \<or> body = ''infinity'' then Some (signed_inf negative)
      else if body = ''nan'' then Some NaN
      else map_option (\<lambda>a. Fin (if negative then - a else a)) (parse_unsigned body))"

definition parse_float :: "string \<Rightarrow> pyfloat option" where
  "parse_float s =
     (case s of
        [] \<Rightarrow> None
      | c # cs \<Rightarrow>
          if c = CHR ''-'' then parse_signed True cs
          else if c = CHR ''+'' then parse_signed False cs
          else parse_signed False s)"

section \<open>The metrics: \<^verbatim>\<open>BaseStrategy.calculate_performance_metrics\<close>\<close>

text \<open>
  A value of the metrics dictionary: a Python \<^verbatim>\<open>int\<close> (the \<^verbatim>\<open>0\<close> of the
  defaults, a length), a \<^verbatim>\<open>numpy.int64\<close> (the sum of a column of flags, a
  cell of an integer column), a float (of Python or of numpy, which are both instances of
  \<^verbatim>\<open>float\<close>), or a string. A \<^verbatim>\<open>numpy.int64\<close> is no instance of
  \<^verbatim>\<open>int\<close> or \<^verbatim>\<open>float\<close>.
\<close>

datatype metric = MInt int | MNpInt int | MFloat pyfloat | MStr string

type_synonym metrics = "string \<rightharpoonup> metric"

text \<open>
  Lines 151 to 154: the helper \<^verbatim>\<open>add_arrow\<close> of the metrics computation. The
  format writes a Python integer as the float of the same value, which is exact here as
  all floats are.
\<close>

fun add_arrow :: "metric \<Rightarrow> metric" where
  "add_arrow (MInt n) =
     MStr (format_f 2 (Fin (of_int n)) @ '' '' @ (if n > 0 then up_arrow else down_arrow))"
| "add_arrow (MFloat v) =
     MStr (format_f 2 v @ '' '' @ (if fpos v then up_arrow else down_arrow))"
| "add_arrow (MNpInt n) = MNpInt n"
| "add_arrow (MStr s) = MStr s"

text \<open>\<^verbatim>\<open>value != 0\<close>: true for every string and for NaN.\<close>

fun nonzero :: "metric \<Rightarrow> bool" where
  "nonzero (MInt n) = (n \<noteq> 0)"
| "nonzero (MNpInt n) = (n \<noteq> 0)"
| "nonzero (MFloat v) = (v \<noteq> Fin 0)"
| "nonzero (MStr s) = True"

text \<open>
  \<^verbatim>\<open>float(str(value).split()[0])\<close>. The text of a number is that number again when
  \<^verbatim>\<open>float\<close> reads it back; a string is cut at its first blank and parsed.
\<close>

fun leading_number :: "metric \<Rightarrow> error + pyfloat" where
  "leading_number (MInt n) = Inr (Fin (of_int n))"
| "leading_number (MNpInt n) = Inr (Fin (of_int n))"
| "leading_number (MFloat v) = Inr v"
| "leading_number (MStr s) =
     (case first_token s of
        None \<Rightarrow> Inl IndexError
      | Some t \<Rightarrow> (case parse_float t of None \<Rightarrow> Inl ValueError | Some v \<Rightarrow> Inr v))"

text \<open>
  The reductions of pandas skip NaN entries. \<^verbatim>\<open>mean\<close> of no value is NaN;
  \<^verbatim>\<open>std\<close> divides by the count less one and is NaN for fewer than two values;
  \<^verbatim>\<open>min\<close> of no value is NaN.
\<close>

definition fsum :: "pyfloat list \<Rightarrow> pyfloat" where
  "fsum xs = foldl fadd (Fin 0) xs"

definition not_nan :: "pyfloat list \<Rightarrow> pyfloat list" where
  "not_nan xs = filter (\<lambda>x. x \<noteq> NaN) xs"

definition nanmean :: "pyfloat list \<Rightarrow> pyfloat" where
  "nanmean xs =
     (let ys = not_nan xs in
      if ys = [] then NaN else fdiv (fsum ys) (Fin (of_nat (length ys))))"

fun fsqrt :: "pyfloat \<Rightarrow> pyfloat" where
  "fsqrt (Fin a) = (if a < 0 then NaN else Fin (sqrt a))"
| "fsqrt PInf = PInf"
| "fsqrt NInf = NaN"
| "fsqrt NaN = NaN"

definition nanstd :: "pyfloat list \<Rightarrow> pyfloat" where
  "nanstd xs =
     (let ys = not_nan xs; n = length ys in
      if n \<le> 1 then NaN
      else (let avg = fdiv (fsum ys) (Fin (of_nat n));
                sq = fsum (map (\<lambda>y. fmul (fsub avg y) (fsub avg y)) ys)
            in fsqrt (fdiv sq (Fin (of_nat (n - 1))))))"

text \<open>The order of the floats that are not NaN.\<close>

fun fle :: "pyfloat \<Rightarrow> pyfloat \<Rightarrow> bool" where
  "fle NInf _ = True"
| "fle _ PInf = True"
| "fle (Fin a) (Fin b) = (a \<le> b)"
| "fle _ _ = False"

definition nanmin :: "pyfloat list \<Rightarrow> pyfloat" where
  "nanmin xs =
     (case not_nan xs of
        [] \<Rightarrow> NaN
      | y # ys \<Rightarrow> foldl (\<lambda>m x. if fle m x then m else x) y ys)"

text \<open>\<^verbatim>\<open>cummax\<close> of a column of finite values: the running maximum.\<close>

fun cummax_from :: "real \<Rightarrow> real list \<Rightarrow> real list" where
  "cummax_from m [] = []"
| "cummax_from m (x # xs) = max m x # cummax_from (max m x) xs"

definition cummax :: "real list \<Rightarrow> real list" where
  "cummax xs = (case xs of [] \<Rightarrow> [] | x # ys \<Rightarrow> x # cummax_from x ys)"

text \<open>
  \<^verbatim>\<open>base ** exponent\<close> of numpy for a finite exponent: NaN for a negative base with
  an exponent that is not an integer, infinity for zero to a negative exponent.
\<close>

fun fpow :: "pyfloat \<Rightarrow> real \<Rightarrow> pyfloat" where
  "fpow (Fin x) y =
     (if y = 0 then Fin 1
      else if 0 < x then Fin (x powr y)
      else if x = 0 then (if 0 < y then Fin 0 else PInf)
      else if y \<in> \<int> then Fin (x powi \<lfloor>y\<rfloor>)
      else NaN)"
| "fpow PInf y = (if y = 0 then Fin 1 else if 0 < y then PInf else Fin 0)"
| "fpow NInf y =
     (if y = 0 then Fin 1 else if y < 0 then Fin 0
      else if y \<in> \<int> \<and> odd \<lfloor>y\<rfloor> then NInf else PInf)"
| "fpow NaN y = (if y = 0 then Fin 1 else NaN)"

text \<open>
  Lines 201 to 206: the profit factor. \<^verbatim>\<open>metrics['avg_profit']\<close> and
  \<^verbatim>\<open>metrics['avg_loss']\<close> are display strings by now (or the integer 0), and the
  numbers are read back from them.
\<close>

definition profit_factor_of :: "metric \<Rightarrow> metric \<Rightarrow> int \<Rightarrow> int \<Rightarrow> error + metric" where
  "profit_factor_of avg_profit avg_loss winning_trades losing_trades =
     (if nonzero avg_loss \<and> losing_trades > 0 then
        (case leading_number avg_profit of
           Inl e \<Rightarrow> Inl e
         | Inr a \<Rightarrow>
             (case leading_number avg_loss of
                Inl e \<Rightarrow> Inl e
              | Inr l \<Rightarrow>
                  Inr (add_arrow (MFloat (fabs (fdiv (fmul a (Fin (of_int winning_trades)))
                                                     (fmul l (Fin (of_int losing_trades)))))))))
      else Inr (MFloat PInf))"

text \<open>Lines 178 to 222: the metrics of the trade log, added to the dictionary.\<close>

definition winners :: "trade list \<Rightarrow> trade list" where
  "winners trades_df = filter (\<lambda>t. profit_loss t > 0) trades_df"

definition losers :: "trade list \<Rightarrow> trade list" where
  "losers trades_df = filter (\<lambda>t. \<not> profit_loss t > 0) trades_df"

definition profit_loss_f :: "trade \<Rightarrow> pyfloat" where
  "profit_loss_f t = Fin (profit_loss t)"

definition mean_of :: "(trade \<Rightarrow> pyfloat) \<Rightarrow> trade list \<Rightarrow> metric" where
  "mean_of column ts = add_arrow (MFloat (nanmean (map column ts)))"

definition trade_metrics :: "trade list \<Rightarrow> metrics \<Rightarrow> error + metrics" where
  "trade_metrics trades_df m =
     (if length trades_df > 0 then
        (let total_trades = int (length trades_df);
             winning_trades = int (length (winners trades_df));
             losing_trades = total_trades - winning_trades;
             win_rate = add_arrow (MFloat (Fin (of_int winning_trades / of_int total_trades * 100)));
             avg_profit = (if winning_trades > 0
                           then mean_of profit_loss_f (winners trades_df) else MInt 0);
             avg_profit_pct = (if winning_trades > 0
                               then mean_of profit_loss_pct (winners trades_df) else MInt 0);
             avg_loss = (if losing_trades > 0
                         then mean_of profit_loss_f (losers trades_df) else MInt 0);
             avg_loss_pct = (if losing_trades > 0
                             then mean_of profit_loss_pct (losers trades_df) else MInt 0)
         in case profit_factor_of avg_profit avg_loss winning_trades losing_trades of
              Inl e \<Rightarrow> Inl e
            | Inr profit_factor \<Rightarrow>
                Inr (m(''total_trades'' \<mapsto> MInt total_trades,
                       ''winning_trades'' \<mapsto> MNpInt winning_trades,
                       ''losing_trades'' \<mapsto> MNpInt losing_trades,
                       ''win_rate'' \<mapsto> win_rate,
                       ''avg_profit'' \<mapsto> avg_profit,
                       ''avg_profit_pct'' \<mapsto> avg_profit_pct,
                       ''avg_loss'' \<mapsto> avg_loss,
                       ''avg_loss_pct'' \<mapsto> avg_loss_pct,
                       ''profit_factor'' \<mapsto> profit_factor,
                       ''avg_trade_duration'' \<mapsto>
                         MFloat (Fin (of_int (sum_list (map trade_duration trades_df))
                                      / of_nat (length trades_df))))))
      else
        Inr (m(''total_trades'' \<mapsto> MInt 0,
               ''winning_trades'' \<mapsto> MInt 0,
               ''losing_trades'' \<mapsto> MInt 0,
               ''win_rate'' \<mapsto> MInt 0,
               ''avg_profit'' \<mapsto> MInt 0,
               ''avg_profit_pct'' \<mapsto> MInt 0,
               ''avg_loss'' \<mapsto> MInt 0,
               ''avg_loss_pct'' \<mapsto> MInt 0,
               ''profit_factor'' \<mapsto> MInt 0,
               ''avg_trade_duration'' \<mapsto> MInt 0)))"

text \<open>Lines 173 and 174: the two columns written into the table that was passed in.\<close>

definition drawdown_column :: "real list \<Rightarrow> real list \<Rightarrow> pyfloat list" where
  "drawdown_column values peaks =
     map (\<lambda>(v, p). fdiv (Fin (v - p)) (Fin p)) (zip values peaks)"

definition with_drawdown :: "dataframe \<Rightarrow> dataframe" where
  "with_drawdown d =
     (let peaks = cummax (map total_value (rows d)) in
      d\<lparr>previous_peak := Some peaks,
        drawdown := Some (drawdown_column (map total_value (rows d)) peaks)\<rparr>)"

text \<open>
  Line 157. \<^verbatim>\<open>df['returns'] = 0\<close> makes a column of integers, which pandas keeps
  as long as every return written is a whole number; the cumulative returns are then
  integers too, their last cell times 100 is a \<^verbatim>\<open>numpy.int64\<close>, and
  \<^verbatim>\<open>add_arrow\<close> stores it as it is. The table carries no record of the kind of
  its columns: the kind is read off the returns, as it comes about in \<^verbatim>\<open>backtest\<close>.
\<close>

fun whole :: "pyfloat \<Rightarrow> bool" where
  "whole (Fin a) = (of_int \<lfloor>a\<rfloor> = a)"
| "whole v = False"

fun whole_part :: "pyfloat \<Rightarrow> int" where
  "whole_part (Fin a) = \<lfloor>a\<rfloor>"
| "whole_part v = 0"

definition total_return_metric :: "dataframe \<Rightarrow> pyfloat \<Rightarrow> metric" where
  "total_return_metric d total_fraction =
     (if list_all (\<lambda>r. whole (returns r)) (rows d) \<and> whole total_fraction
      then add_arrow (MNpInt (whole_part total_fraction * 100))
      else add_arrow (MFloat (fmul total_fraction (Fin 100))))"

text \<open>Lines 157 to 175: the metrics of the value series, once the number of days is known.\<close>

definition series_metrics :: "dataframe \<Rightarrow> pyfloat \<Rightarrow> int \<Rightarrow> metrics" where
  "series_metrics d total_fraction days =
     (let annual_return =
            fmul (fsub (fpow (fadd (Fin 1) total_fraction) (365 / of_int days)) (Fin 1)) (Fin 100);
          sd = nanstd (map returns (rows d));
          risk_free_rate = 0.02;
          sharpe = fdiv (fsub (fdiv annual_return (Fin 100)) (Fin risk_free_rate))
                        (fmul sd (Fin (sqrt 252)));
          peaks = cummax (map total_value (rows d));
          dd = drawdown_column (map total_value (rows d)) peaks
      in [''total_return'' \<mapsto> total_return_metric d total_fraction,
          ''annual_return'' \<mapsto> add_arrow (MFloat annual_return),
          ''volatility'' \<mapsto> add_arrow (MFloat (fmul (fmul sd (Fin (sqrt 252))) (Fin 100))),
          ''sharpe_ratio'' \<mapsto> add_arrow (MFloat sharpe),
          ''max_drawdown'' \<mapsto> add_arrow (MFloat (fmul (nanmin dd) (Fin 100)))])"

text \<open>
  The whole call. The first component is the table of the caller as it is after the call,
  whether the call returns or raises: the exceptions of lines 157 to 161 come before the
  two columns are written.
\<close>

definition elapsed_days :: "dataframe \<Rightarrow> int" where
  "elapsed_days d = timedelta_days (date (last (rows d))) (date (hd (rows d)))"

definition calculate_performance_metrics ::
  "dataframe \<Rightarrow> trade list \<Rightarrow> dataframe \<times> (error + metrics)" where
  "calculate_performance_metrics d trades_df =
     (case cumulative_returns d of
        None \<Rightarrow> (d, Inl KeyError)
      | Some cum \<Rightarrow>
          if cum = [] \<or> rows d = [] then (d, Inl IndexError)
          else if elapsed_days d = 0 then (d, Inl ZeroDivisionError)
          else (with_drawdown d,
                trade_metrics trades_df (series_metrics d (last cum) (elapsed_days d))))"

section \<open>The display step: \<^verbatim>\<open>format_metrics_for_display\<close>\<close>

text \<open>
  Lines 476 to 487 of \<^verbatim>\<open>src/visualizations.py\<close>: this \<^verbatim>\<open>add_arrow\<close> also
  reformats a string that holds a blank and starts with a number, and returns any other
  string as it is. The number read from \<^verbatim>\<open>-0.00\<close> is the float
  \<^verbatim>\<open>-0.0\<close>, which is written with its sign again.
\<close>

definition reformat :: "string \<Rightarrow> pyfloat \<Rightarrow> string" where
  "reformat token v =
     (if v = Fin 0 \<and> take 1 token = ''-'' then ''-'' @ format_f 2 v else format_f 2 v)"

fun add_arrow_display :: "metric \<Rightarrow> metric" where
  "add_arrow_display (MInt n) =
     MStr (format_f 2 (Fin (of_int n)) @ '' '' @ (if n > 0 then up_arrow else down_arrow))"
| "add_arrow_display (MFloat v) =
     MStr (format_f 2 v @ '' '' @ (if fpos v then up_arrow else down_arrow))"
| "add_arrow_display (MNpInt n) = MNpInt n"
| "add_arrow_display (MStr s) =
     (if CHR '' '' \<in> set s then
        (case first_token s of
           None \<Rightarrow> MStr s
         | Some t \<Rightarrow>
             (case parse_float t of
                None \<Rightarrow> MStr s
              | Some v \<Rightarrow>
                  MStr (reformat t v @ '' '' @ (if fpos v then up_arrow else down_arrow))))
      else MStr s)"

definition numeric_metrics :: "string list" where
  "numeric_metrics =
     [''total_return'', ''annual_return'', ''volatility'', ''win_rate'',
      ''max_drawdown'', ''avg_profit'', ''avg_loss'', ''avg_profit_pct'',
      ''avg_loss_pct'', ''sharpe_ratio'', ''profit_factor'']"

definition count_metrics :: "string list" where
  "count_metrics = [''total_trades'', ''winning_trades'', ''losing_trades'']"

text \<open>Lines 496 to 500: one pass of the loop over the numeric keys.\<close>

definition format_numeric :: "metrics \<Rightarrow> metrics \<Rightarrow> string \<Rightarrow> metrics" where
  "format_numeric m formatted key =
     (case m key of
        Some v \<Rightarrow> if nonzero v then formatted(key \<mapsto> add_arrow_display v)
                  else formatted(key \<mapsto> v)
      | None \<Rightarrow> formatted(key \<mapsto> MInt 0))"

text \<open>Lines 503 to 506: one pass of the loop over the count keys.\<close>

definition format_count :: "metrics \<Rightarrow> metrics \<Rightarrow> string \<Rightarrow> metrics" where
  "format_count m formatted key =
     (case m key of Some v \<Rightarrow> formatted(key \<mapsto> v) | None \<Rightarrow> formatted)"

text \<open>
  Lines 509 and 510: the duration with one decimal and the day label; the format code
  \<^verbatim>\<open>f\<close> is accepted by every number and raises on a string.
\<close>

definition format_duration :: "metrics \<Rightarrow> metrics \<Rightarrow> error + metrics" where
  "format_duration m formatted =
     (case m ''avg_trade_duration'' of
        None \<Rightarrow> Inr formatted
      | Some (MInt n) \<Rightarrow>
          Inr (formatted(''avg_trade_duration'' \<mapsto>
                 MStr (format_f 1 (Fin (of_int n)) @ '' '' @ day_label)))
      | Some (MNpInt n) \<Rightarrow>
          Inr (formatted(''avg_trade_duration'' \<mapsto>
                 MStr (format_f 1 (Fin (of_int n)) @ '' '' @ day_label)))
      | Some (MFloat v) \<Rightarrow>
          Inr (formatted(''avg_trade_duration'' \<mapsto> MStr (format_f 1 v @ '' '' @ day_label)))
      | Some (MStr s) \<Rightarrow> Inl ValueError)"

definition format_metrics_for_display :: "metrics \<Rightarrow> error + metrics" where
  "format_metrics_for_display m =
     format_duration m
       (foldl (format_count m) (foldl (format_numeric m) Map.empty numeric_metrics)
          count_metrics)"

section \<open>The end-to-end scenario of the specification\<close>

text \<open>
  Four daily rows with closes 100, 105, 95, 110 and signals 0, +1, -1, 0; the table and the
  trades that \<^verbatim>\<open>backtest\<close> returns for them with an initial capital of 1000.
\<close>

definition end_to_end_bars :: "bar list" where
  "end_to_end_bars =
     [\<lparr>date = 0, Close = 100, signal_line = 0\<rparr>,
      \<lparr>date = 86400000000000, Close = 105, signal_line = 1\<rparr>,
      \<lparr>date = 172800000000000, Close = 95, signal_line = - 1\<rparr>,
      \<lparr>date = 259200000000000, Close = 110, signal_line = 0\<rparr>]"

definition end_to_end_rows :: "row list" where
  "end_to_end_rows =
     [\<lparr>date = 0, Close = 100, signal_line = 0, position = 0,
        cash = 1000, holdings = 0, total_value = 1000, returns = Fin 0\<rparr>,
      \<lparr>date = 86400000000000, Close = 105, signal_line = 1, position = 9,
        cash = 55, holdings = 945, total_value = 1000, returns = Fin 0\<rparr>,
      \<lparr>date = 172800000000000, Close = 95, signal_line = - 1, position = - 9,
        cash = 1765, holdings = - 855, total_value = 910, returns = Fin (- (9 / 100))\<rparr>,
      \<lparr>date = 259200000000000, Close = 110, signal_line = 0, position = - 9,
        cash = 1765, holdings = - 990, total_value = 775, returns = Fin (- (27 / 182))\<rparr>]"

definition end_to_end_frame :: dataframe where
  "end_to_end_frame =
     \<lparr>rows = end_to_end_rows,
      cumulative_returns = Some [Fin 0, Fin 0, Fin (- (9 / 100)), Fin (- (9 / 40))],
      previous_peak = None, drawdown = None\<rparr>"

definition end_to_end_trades :: "trade list" where
  "end_to_end_trades =
     [\<lparr>entry_date = 86400000000000, exit_date = 172800000000000,
        entry_price = 105, exit_price = 95, position_type = LONG,
        profit_loss = - 90, profit_loss_pct = Fin (- (200 / 21)), trade_duration = 1\<rparr>,
      \<lparr>entry_date = 172800000000000, exit_date = 259200000000000,
        entry_price = 95, exit_price = 110, position_type = SHORT,
        profit_loss = - 135, profit_loss_pct = Fin (- (150 / 11)), trade_duration = 1\<rparr>]"

text \<open>A table of one row.\<close>

definition one_bar :: "bar list" where
  "one_bar = [\<lparr>date = 0, Close = 100, signal_line = 0\<rparr>]"

text \<open>
  Two rows four hours apart with a buy signal on the second, and what \<^verbatim>\<open>backtest\<close>
  returns for them with an initial capital of 1000.
\<close>

definition intraday_bars :: "bar list" where
  "intraday_bars =
     [\<lparr>date = 0, Close = 100, signal_line = 0\<rparr>,
      \<lparr>date = 14400000000000, Close = 105, signal_line = 1\<rparr>]"

definition intraday_frame :: dataframe where
  "intraday_frame =
     \<lparr>rows =
        [\<lparr>date = 0, Close = 100, signal_line = 0, position = 0,
           cash = 1000, holdings = 0, total_value = 1000, returns = Fin 0\<rparr>,
         \<lparr>date = 14400000000000, Close = 105, signal_line = 1, position = 9,
           cash = 55, holdings = 945, total_value = 1000, returns = Fin 0\<rparr>],
      cumulative_returns = Some [Fin 0, Fin 0],
      previous_peak = None, drawdown = None\<rparr>"

definition intraday_trades :: "trade list" where
  "intraday_trades =
     [\<lparr>entry_date = 14400000000000, exit_date = 14400000000000,
        entry_price = 105, exit_price = 105, position_type = LONG,
        profit_loss = 0, profit_loss_pct = Fin 0, trade_duration = 0\<rparr>]"

text \<open>A trade log with one winner of 10 and one loser of 0.014.\<close>

definition two_trades :: "trade list" where
  "two_trades =
     [\<lparr>entry_date = 0, exit_date = 86400000000000, entry_price = 100, exit_price = 110,
        position_type = LONG, profit_loss = 10, profit_loss_pct = Fin 10, trade_duration = 1\<rparr>,
      \<lparr>entry_date = 86400000000000, exit_date = 172800000000000, entry_price = 100,
        exit_price = 99.986, position_type = LONG, profit_loss = - 0.014,
        profit_loss_pct = Fin (- 0.014), trade_duration = 1\<rparr>]"

text \<open>The dictionary of lines 211 to 222, the metrics of an empty trade log.\<close>

definition default_trade_metrics :: metrics where
  "default_trade_metrics =
     [''total_trades'' \<mapsto> MInt 0, ''winning_trades'' \<mapsto> MInt 0,
      ''losing_trades'' \<mapsto> MInt 0, ''win_rate'' \<mapsto> MInt 0,
      ''avg_profit'' \<mapsto> MInt 0, ''avg_profit_pct'' \<mapsto> MInt 0,
      ''avg_loss'' \<mapsto> MInt 0, ''avg_loss_pct'' \<mapsto> MInt 0,
      ''profit_factor'' \<mapsto> MInt 0, ''avg_trade_duration'' \<mapsto> MInt 0]"

text \<open>
  A dictionary with a win rate of one half stored as a float, a total return of minus one
  stored as an integer of numpy, no loss, a volatility below half a hundredth stored as
  its display string, and a mean duration of a day and a half.
\<close>

definition sample_metrics :: metrics where
  "sample_metrics =
     [''win_rate'' \<mapsto> MFloat (Fin 50), ''total_return'' \<mapsto> MNpInt (- 100),
      ''avg_loss'' \<mapsto> MInt 0, ''avg_profit'' \<mapsto> MInt 3,
      ''volatility'' \<mapsto> add_arrow (MFloat (Fin 0.004)),
      ''avg_trade_duration'' \<mapsto> MFloat (Fin 1.5)]"

text \<open>The entry of a dictionary that a call returned; none when the call raised.\<close>

fun lookup_metric :: "string \<Rightarrow> error + metrics \<Rightarrow> metric option" where
  "lookup_metric key (Inr m) = m key"
| "lookup_metric key (Inl e) = None"

text \<open>
  The value that a float has once it is written with \<open>k\<close> decimals and read back.
\<close>

fun round_to :: "nat \<Rightarrow> pyfloat \<Rightarrow> pyfloat" where
  "round_to k (Fin a) =
     Fin ((if a < 0 then - 1 else 1) * of_int (round_half_even (\<bar>a\<bar> * 10 ^ k)) / 10 ^ k)"
| "round_to k v = v"

text \<open>
  The number that line 202 reads back from \<^verbatim>\<open>metrics['avg_profit']\<close> or
  \<^verbatim>\<open>metrics['avg_loss']\<close>: the mean as displayed, or 0 for no trade.
\<close>

definition displayed_mean :: "(trade \<Rightarrow> pyfloat) \<Rightarrow> trade list \<Rightarrow> pyfloat" where
  "displayed_mean column ts =
     (if ts = [] then Fin 0 else round_to 2 (nanmean (map column ts)))"

section \<open>Predicates for the proofs\<close>

text \<open>What a row of the returned table satisfies, and what one pass of the loop may change.\<close>

definition holds_ok :: "row \<Rightarrow> bool" where
  "holds_ok r \<longleftrightarrow> holdings r = of_int (position r) * Close r"

definition value_ok :: "row \<Rightarrow> bool" where
  "value_ok r \<longleftrightarrow> total_value r = cash r + holdings r"

definition entry_ok :: "sim \<Rightarrow> bool" where
  "entry_ok s \<longleftrightarrow> current_position s = 0 \<or> entry_date_v s \<noteq> None"

definition only_row :: "nat \<Rightarrow> row list \<Rightarrow> row list \<Rightarrow> bool" where
  "only_row i xs ys \<longleftrightarrow>
     length ys = length xs \<and> (\<forall>j. j \<noteq> i \<longrightarrow> ys ! j = xs ! j) \<and>
     bar.truncate (ys ! i) = bar.truncate (xs ! i)"

definition frame_ok :: "row list \<Rightarrow> bool" where
  "frame_ok xs \<longleftrightarrow> (\<forall>j<length xs. holds_ok (xs ! j) \<and> value_ok (xs ! j))"

section \<open>Properties of the simulator\<close>

lemmas step_defs = step_def carry_forward_def close_on_signal_def open_on_signal_def
  update_value_def closed_trade_def timedelta_days_def fsub_def

lemma only_row_refl: "only_row i xs xs"
  by (simp add: only_row_def)

lemma only_row_trans: "only_row i xs ys \<Longrightarrow> only_row i ys zs \<Longrightarrow> only_row i xs zs"
  by (simp add: only_row_def)

lemma only_row_update:
  "bar.truncate r = bar.truncate (xs ! i) \<Longrightarrow> only_row i xs (xs[i := r])"
  by (cases "i < length xs") (simp_all add: only_row_def list_update_beyond)

lemma carry_forward_only: "only_row i (df s) (df (carry_forward i s))"
  by (simp add: carry_forward_def Let_def only_row_update bar.truncate_def)

lemma carry_forward_holds:
  "i < length (df s) \<Longrightarrow> holds_ok (df (carry_forward i s) ! i)"
  by (simp add: carry_forward_def Let_def holds_ok_def)

lemma close_on_signal_only:
  "close_on_signal i s = Inr s' \<Longrightarrow> only_row i (df s) (df s')"
  by (auto simp: close_on_signal_def Let_def only_row_update only_row_refl bar.truncate_def
      split: if_splits option.splits)

lemma close_on_signal_holds:
  "close_on_signal i s = Inr s' \<Longrightarrow> i < length (df s) \<Longrightarrow> holds_ok (df s ! i) \<Longrightarrow>
   holds_ok (df s' ! i)"
  by (auto simp: close_on_signal_def Let_def holds_ok_def split: if_splits option.splits)

lemma open_on_signal_only:
  "open_on_signal i s = Inr s' \<Longrightarrow> only_row i (df s) (df s')"
  by (cases "i < length (df s)")
     (auto simp: open_on_signal_def Let_def only_row_def bar.truncate_def list_update_beyond
      split: if_splits)

lemma open_on_signal_holds:
  "open_on_signal i s = Inr s' \<Longrightarrow> i < length (df s) \<Longrightarrow> holds_ok (df s ! i) \<Longrightarrow>
   holds_ok (df s' ! i)"
  by (auto simp: open_on_signal_def Let_def holds_ok_def split: if_splits)

lemma update_value_only: "only_row i (df s) (df (update_value i s))"
  by (simp add: update_value_def Let_def only_row_update bar.truncate_def)

lemma update_value_ok:
  "i < length (df s) \<Longrightarrow> holds_ok (df s ! i) \<Longrightarrow>
   holds_ok (df (update_value i s) ! i) \<and> value_ok (df (update_value i s) ! i)"
  by (simp add: update_value_def Let_def holds_ok_def value_ok_def)

lemma only_row_length: "only_row i xs ys \<Longrightarrow> length ys = length xs"
  by (simp add: only_row_def)

lemma step_only: "step i s = Inr s' \<Longrightarrow> only_row i (df s) (df s')"
proof -
  assume "step i s = Inr s'"
  then obtain s1 s2 where
    c: "close_on_signal i (carry_forward i s) = Inr s1" and
    opn: "open_on_signal i s1 = Inr s2" and s': "s' = update_value i s2"
    by (auto simp: step_def split: sum.splits)
  have "only_row i (df s) (df s1)"
    using carry_forward_only close_on_signal_only [OF c] by (rule only_row_trans)
  then have "only_row i (df s) (df s2)"
    using open_on_signal_only [OF opn] by (rule only_row_trans)
  then show ?thesis
    unfolding s' using update_value_only by (rule only_row_trans)
qed

lemma step_ok:
  assumes "step i s = Inr s'" and "i < length (df s)"
  shows "holds_ok (df s' ! i) \<and> value_ok (df s' ! i)"
proof -
  from assms(1) obtain s1 s2 where
    c: "close_on_signal i (carry_forward i s) = Inr s1" and
    opn: "open_on_signal i s1 = Inr s2" and s': "s' = update_value i s2"
    by (auto simp: step_def split: sum.splits)
  have l0: "i < length (df (carry_forward i s))"
    using assms(2) only_row_length [OF carry_forward_only, of i s] by simp
  have l1: "i < length (df s1)"
    using l0 only_row_length [OF close_on_signal_only [OF c]] by simp
  have l2: "i < length (df s2)"
    using l1 only_row_length [OF open_on_signal_only [OF opn]] by simp
  have "holds_ok (df (carry_forward i s) ! i)"
    using assms(2) by (rule carry_forward_holds)
  then have "holds_ok (df s1 ! i)"
    using close_on_signal_holds [OF c l0] by simp
  then have "holds_ok (df s2 ! i)"
    using open_on_signal_holds [OF opn l1] by simp
  then show ?thesis
    unfolding s' using update_value_ok [OF l2] by simp
qed

lemma step_frame_ok:
  assumes "step i s = Inr s'" and "i < length (df s)" and "frame_ok (df s)"
  shows "frame_ok (df s')"
  unfolding frame_ok_def
proof (intro allI impI)
  fix j assume j: "j < length (df s')"
  have o: "only_row i (df s) (df s')" using assms(1) by (rule step_only)
  show "holds_ok (df s' ! j) \<and> value_ok (df s' ! j)"
  proof (cases "j = i")
    case True
    then show ?thesis using step_ok [OF assms(1,2)] by simp
  next
    case False
    then have "df s' ! j = df s ! j" using o by (simp add: only_row_def)
    moreover have "j < length (df s)" using j o by (simp add: only_row_def)
    ultimately show ?thesis using assms(3) by (simp add: frame_ok_def)
  qed
qed

lemma only_row_bars: "only_row i xs ys \<Longrightarrow> map bar.truncate ys = map bar.truncate xs"
proof (rule nth_equalityI)
  assume o: "only_row i xs ys"
  show "length (map bar.truncate ys) = length (map bar.truncate xs)"
    using o by (simp add: only_row_def)
  fix j assume "j < length (map bar.truncate ys)"
  then have j: "j < length ys" "j < length xs" using o by (simp_all add: only_row_def)
  have "bar.truncate (ys ! j) = bar.truncate (xs ! j)"
    using o by (cases "j = i") (simp_all add: only_row_def)
  then show "map bar.truncate ys ! j = map bar.truncate xs ! j"
    using j by simp
qed

lemma loop_frame:
  "loop js s = Inr s' \<Longrightarrow> \<forall>i\<in>set js. i < length (df s) \<Longrightarrow>
   map bar.truncate (df s') = map bar.truncate (df s) \<and>
   (frame_ok (df s) \<longrightarrow> frame_ok (df s'))"
proof (induction js arbitrary: s)
  case Nil
  then show ?case by simp
next
  case (Cons i js)
  from Cons.prems(1) obtain s1 where st: "step i s = Inr s1" and l: "loop js s1 = Inr s'"
    by (auto split: sum.splits)
  have o: "only_row i (df s) (df s1)" using st by (rule step_only)
  then have len: "length (df s1) = length (df s)" by (rule only_row_length)
  have "\<forall>k\<in>set js. k < length (df s1)" using Cons.prems(2) len by simp
  from Cons.IH [OF l this] only_row_bars [OF o] step_frame_ok [OF st] Cons.prems(2)
  show ?case by simp
qed

lemma truncate_portfolio_columns: "bar.truncate (portfolio_columns c b) = b"
  by (simp add: portfolio_columns_def bar.truncate_def)

lemma init_frame_ok: "frame_ok (df (init_sim c bars))"
  by (simp add: frame_ok_def init_sim_def portfolio_columns_def holds_ok_def value_ok_def)

lemma run_loop_frame:
  assumes "run_loop bars c = Inr s"
  shows "map bar.truncate (df s) = bars \<and> frame_ok (df s)"
proof -
  have "\<forall>i\<in>set [1..<length bars]. i < length (df (init_sim c bars))"
    by (simp add: init_sim_def)
  from loop_frame [OF assms [unfolded run_loop_def] this] init_frame_ok [of c bars]
  show ?thesis by (simp add: init_sim_def truncate_portfolio_columns comp_def)
qed

lemma backtest_Inr:
  "backtest bars c = Inr (d, ts) \<Longrightarrow>
   \<exists>s. run_loop bars c = Inr s \<and> close_remaining s = Inr ts \<and> ts \<noteq> [] \<and>
       d = augmented s"
  by (auto simp: backtest_def trades_table_def Let_def split: sum.splits if_splits)

lemma end_to_end_loop:
  "run_loop end_to_end_bars 1000 =
     Inr \<lparr>df = end_to_end_rows, trades = [hd end_to_end_trades],
          current_position = - 9, entry_price_v = 95,
          entry_date_v = Some 172800000000000\<rparr>"
  by (simp add: run_loop_def end_to_end_bars_def end_to_end_rows_def end_to_end_trades_def
      init_sim_def portfolio_columns_def step_defs Let_def)

lemma end_to_end_backtest:
  "backtest end_to_end_bars 1000 = Inr (end_to_end_frame, end_to_end_trades)"
  by (simp add: backtest_def end_to_end_loop close_remaining_def final_trade_def
      trades_table_def cumulative_def augmented_def end_to_end_frame_def end_to_end_rows_def
      end_to_end_trades_def timedelta_days_def fsub_def Let_def)

text \<open>
  C1 (as stated, refuted). The specification expects one trade, a cash of 910 at bar 2 and
  a total value of 910 at bar 3. The sell signal of bar 2 closes the long position and,
  the position being zero again, opens a short one at the same close: the run returns two
  trades, the cash column holds 1765 at bar 2 and the total value is 775 at bar 3.
\<close>

theorem end_to_end_counterexample:
  "backtest end_to_end_bars 1000 = Inr (end_to_end_frame, end_to_end_trades) \<and>
   length end_to_end_trades \<noteq> 1 \<and>
   cash (rows end_to_end_frame ! 2) \<noteq> 910 \<and>
   total_value (rows end_to_end_frame ! 3) \<noteq> 910"
  by (simp add: end_to_end_backtest end_to_end_frame_def end_to_end_rows_def
      end_to_end_trades_def)

text \<open>
  C1 (amended). For closes 100, 105, 95, 110, signals 0, +1, -1, 0 and an initial capital of
  1000 the simulator opens a long position of 9 shares at bar 1 with cash 55; at bar 2 it
  closes it at 95 with a profit of -90 (about -9.52 percent) and opens a short position of
  9 shares in the same pass, so that the row holds cash 1765, holdings -855 and total
  value 910; at bar 3 the total value is 775; the trade log has exactly two trades, the
  long one and the short one closed at the last close 110 with a profit of -135.
\<close>

theorem end_to_end_scenario:
  "backtest end_to_end_bars 1000 = Inr (end_to_end_frame, end_to_end_trades) \<and>
   position (rows end_to_end_frame ! 1) = 9 \<and> cash (rows end_to_end_frame ! 1) = 55 \<and>
   position (rows end_to_end_frame ! 2) = - 9 \<and> cash (rows end_to_end_frame ! 2) = 1765 \<and>
   holdings (rows end_to_end_frame ! 2) = - 855 \<and>
   total_value (rows end_to_end_frame ! 2) = 910 \<and>
   total_value (rows end_to_end_frame ! 3) = 775 \<and>
   length end_to_end_trades = 2 \<and>
   position_type (end_to_end_trades ! 0) = LONG \<and>
   exit_price (end_to_end_trades ! 0) = 95 \<and>
   profit_loss (end_to_end_trades ! 0) = - 90 \<and>
   profit_loss_pct (end_to_end_trades ! 0) = Fin (- (200 / 21)) \<and>
   \<bar>- (200 / 21) - (- 9.52 :: real)\<bar> < 0.005 \<and>
   position_type (end_to_end_trades ! 1) = SHORT \<and>
   exit_price (end_to_end_trades ! 1) = 110 \<and>
   profit_loss (end_to_end_trades ! 1) = - 135"
  by (simp add: end_to_end_backtest end_to_end_frame_def end_to_end_rows_def
      end_to_end_trades_def)

text \<open>
  C2. Whenever the simulator returns, every row of the returned table has a total value
  equal to its cash plus its holdings, and holdings equal to its position times the close
  of the input bar of the same index; the table has one row per input bar.
\<close>

theorem backtest_conservation:
  assumes "backtest bars capital = Inr (d, ts)" and "i < length bars"
  shows "length (rows d) = length bars \<and>
         total_value (rows d ! i) = cash (rows d ! i) + holdings (rows d ! i) \<and>
         holdings (rows d ! i) = of_int (position (rows d ! i)) * Close (bars ! i)"
proof -
  from backtest_Inr [OF assms(1)] obtain s where
    s: "run_loop bars capital = Inr s" and d: "rows d = df s"
    by (auto simp: augmented_def)
  from run_loop_frame [OF s] have b: "map bar.truncate (df s) = bars" and ok: "frame_ok (df s)"
    by simp_all
  have len: "length (df s) = length bars" using b by (metis length_map)
  have "bar.truncate (df s ! i) = bars ! i"
    using b assms(2) len by (metis nth_map)
  then have "Close (bar.truncate (df s ! i)) = Close (bars ! i)" by simp
  then have "Close (df s ! i) = Close (bars ! i)" by (simp add: bar.truncate_def)
  with ok assms(2) len d show ?thesis
    by (simp add: frame_ok_def holds_ok_def value_ok_def)
qed

theorem backtest_conservation_witness:
  "backtest end_to_end_bars 1000 = Inr (end_to_end_frame, end_to_end_trades) \<and>
   (2::nat) < length end_to_end_bars \<and>
   length (rows end_to_end_frame) = length end_to_end_bars \<and>
   total_value (rows end_to_end_frame ! 2) =
     cash (rows end_to_end_frame ! 2) + holdings (rows end_to_end_frame ! 2) \<and>
   holdings (rows end_to_end_frame ! 2) =
     of_int (position (rows end_to_end_frame ! 2)) * Close (end_to_end_bars ! 2)"
proof -
  have l: "(2::nat) < length end_to_end_bars" by (simp add: end_to_end_bars_def)
  show ?thesis
    using backtest_conservation [OF end_to_end_backtest l] end_to_end_backtest l by simp
qed

lemma carry_forward_entry: "entry_ok (carry_forward i s) = entry_ok s"
  by (simp add: carry_forward_def Let_def entry_ok_def)

lemma close_on_signal_entry:
  "close_on_signal i s = Inr s' \<Longrightarrow> entry_ok s \<Longrightarrow> entry_ok s'"
  by (auto simp: close_on_signal_def Let_def entry_ok_def split: if_splits option.splits)

lemma open_on_signal_entry:
  "open_on_signal i s = Inr s' \<Longrightarrow> entry_ok s \<Longrightarrow> entry_ok s'"
  by (auto simp: open_on_signal_def Let_def entry_ok_def split: if_splits)

lemma update_value_entry: "entry_ok (update_value i s) = entry_ok s"
  by (simp add: update_value_def Let_def entry_ok_def)

lemma step_entry:
  assumes "step i s = Inr s'" and "entry_ok s"
  shows "entry_ok s'"
proof -
  from assms(1) obtain s1 s2 where
    c: "close_on_signal i (carry_forward i s) = Inr s1" and
    opn: "open_on_signal i s1 = Inr s2" and s': "s' = update_value i s2"
    by (auto simp: step_def split: sum.splits)
  have "entry_ok s1" using close_on_signal_entry [OF c] assms(2) carry_forward_entry by simp
  then have "entry_ok s2" by (rule open_on_signal_entry [OF opn])
  then show ?thesis by (simp add: s' update_value_entry)
qed

lemma loop_entry: "loop js s = Inr s' \<Longrightarrow> entry_ok s \<Longrightarrow> entry_ok s'"
proof (induction js arbitrary: s)
  case Nil
  then show ?case by simp
next
  case (Cons i js)
  from Cons.prems(1) obtain s1 where st: "step i s = Inr s1" and l: "loop js s1 = Inr s'"
    by (auto split: sum.splits)
  show ?case using Cons.IH [OF l step_entry [OF st Cons.prems(2)]] .
qed

lemma run_loop_entry: "run_loop bars c = Inr s \<Longrightarrow> entry_ok s"
  unfolding run_loop_def by (erule loop_entry) (simp add: entry_ok_def init_sim_def)

lemma final_trade_closed_trade:
  "final_trade cp entry_p entry_d r = closed_trade cp entry_p entry_d (Close r) (date r)"
  by (simp add: final_trade_def closed_trade_def)

lemma last_row_bar:
  assumes "map bar.truncate rs = bars" and "rs \<noteq> []"
  shows "Close (last rs) = Close (last bars) \<and> date (last rs) = date (last bars)"
proof -
  have "bar.truncate (last rs) = last bars"
    using assms by (metis last_map)
  then have "Close (bar.truncate (last rs)) = Close (last bars)"
    and "date (bar.truncate (last rs)) = date (last bars)" by simp_all
  then show ?thesis by (simp add: bar.truncate_def)
qed

text \<open>
  C3. When the loop ends with a position still open, the simulator returns, and its trade
  log is the log of the loop followed by one trade built by the formulas of a mid-series
  close from the last bar's close and index value; the returned table is the one the loop
  left before the forced close, with the cumulative returns computed from its rows: the
  forced close writes no cell of it.
\<close>

theorem end_of_series_close:
  assumes "run_loop bars c = Inr s" and "current_position s \<noteq> 0"
  shows "\<exists>entry_d.
           entry_date_v s = Some entry_d \<and>
           backtest bars c =
             Inr (augmented s,
                  trades s @ [closed_trade (current_position s) (entry_price_v s) entry_d
                                (Close (last bars)) (date (last bars))]) \<and>
           rows (augmented s) = df s \<and>
           cumulative_returns (augmented s) = Some (cumulative (df s))"
proof -
  from run_loop_entry [OF assms(1)] assms(2) obtain entry_d where
    e: "entry_date_v s = Some entry_d" by (auto simp: entry_ok_def)
  have b: "map bar.truncate (df s) = bars" using run_loop_frame [OF assms(1)] by simp
  have ne: "df s \<noteq> []"
  proof
    assume "df s = []"
    with b have "bars = []" by simp
    with assms(1) have "s = init_sim c []" by (simp add: run_loop_def)
    with assms(2) show False by (simp add: init_sim_def)
  qed
  have "close_remaining s =
          Inr (trades s @ [closed_trade (current_position s) (entry_price_v s) entry_d
                 (Close (last bars)) (date (last bars))])"
    using assms(2) e ne last_row_bar [OF b ne]
    by (simp add: close_remaining_def final_trade_closed_trade)
  then show ?thesis
    using assms(1) e by (simp add: backtest_def trades_table_def augmented_def)
qed

theorem end_of_series_close_witness:
  "\<exists>entry_d.
     Some (172800000000000::int) = Some entry_d \<and>
     backtest end_to_end_bars 1000 =
       Inr (end_to_end_frame,
            [hd end_to_end_trades] @
            [closed_trade (- 9) 95 entry_d (Close (last end_to_end_bars))
               (date (last end_to_end_bars))]) \<and>
     rows end_to_end_frame = end_to_end_rows \<and>
     cumulative_returns end_to_end_frame = Some (cumulative end_to_end_rows)"
  using end_of_series_close [OF end_to_end_loop]
  by (simp add: augmented_def end_to_end_frame_def cumulative_def end_to_end_rows_def fsub_def)

text \<open>
  C4 (as stated, refuted). The simulator makes no check before the loop: on a table of one
  row with its signal column the loop is entered, makes no pass and ends normally, and
  so does the step that closes a remaining position. Lines 29 to 125 reject nothing.
\<close>

theorem short_series_counterexample:
  "length one_bar < 2 \<and>
   run_loop one_bar 1000 = Inr (init_sim 1000 one_bar) \<and>
   close_remaining (init_sim 1000 one_bar) = Inr []"
  by (simp add: run_loop_def one_bar_def init_sim_def close_remaining_def)

text \<open>
  C4 (amended). When fewer than 2 bars are supplied the simulator itself makes no check:
  on the table with its signal column the loop makes no pass and ends normally, every
  row is the baseline row (position 0, cash and total value equal to the initial capital,
  holdings 0, return 0), no position is open and the trade log is empty.
\<close>

theorem short_series:
  assumes "length bars < 2"
  shows "run_loop bars c = Inr (init_sim c bars) \<and>
         df (init_sim c bars) = map (portfolio_columns c) bars \<and>
         (\<forall>r\<in>set (df (init_sim c bars)).
            position r = 0 \<and> cash r = c \<and> holdings r = 0 \<and> total_value r = c \<and>
            returns r = Fin 0) \<and>
         current_position (init_sim c bars) = 0 \<and>
         trades (init_sim c bars) = [] \<and>
         close_remaining (init_sim c bars) = Inr []"
proof -
  have u: "[1..<length bars] = []" using assms by simp
  have r: "run_loop bars c = Inr (init_sim c bars)"
    by (simp only: run_loop_def u loop.simps)
  show ?thesis
    using r by (auto simp: init_sim_def portfolio_columns_def close_remaining_def)
qed

theorem short_series_witness:
  "length one_bar < 2 \<and>
   run_loop one_bar 1000 = Inr (init_sim 1000 one_bar) \<and>
   df (init_sim 1000 one_bar) =
     [\<lparr>date = 0, Close = 100, signal_line = 0, position = 0, cash = 1000, holdings = 0,
       total_value = 1000, returns = Fin 0\<rparr>] \<and>
   current_position (init_sim 1000 one_bar) = 0 \<and>
   trades (init_sim 1000 one_bar) = [] \<and>
   close_remaining (init_sim 1000 one_bar) = Inr []"
proof -
  have l: "length one_bar < 2" by (simp add: one_bar_def)
  have d: "map (portfolio_columns 1000) one_bar =
     [\<lparr>date = 0, Close = 100, signal_line = 0, position = 0, cash = 1000, holdings = 0,
       total_value = 1000, returns = Fin 0\<rparr>]"
    by (simp add: one_bar_def portfolio_columns_def)
  show ?thesis using short_series [OF l, of 1000] l d by simp
qed

section \<open>Properties of the display strings\<close>

lemma string_of_nat_numeral [simp]:
  "string_of_nat (numeral w) =
     (if (numeral w :: nat) < 10 then [digit_char (numeral w)]
      else string_of_nat (numeral w div 10) @ [digit_char (numeral w mod 10)])"
  by (rule string_of_nat.simps)

lemma string_of_nat_small [simp]:
  "string_of_nat 0 = ''0''" "string_of_nat (Suc 0) = ''1''"
  by (simp_all add: string_of_nat.simps [of 0] string_of_nat.simps [of "Suc 0"] digit_char_def)

lemma digit_val_digit_char: "d < 10 \<Longrightarrow> digit_val (digit_char d) = Some d"
  by (auto simp: digit_char_def digit_val_def)

lemma is_digit_digit_char: "is_digit (digit_char d)"
  by (simp add: is_digit_def digit_char_def digit_val_def)

lemma digit_char_plain:
  "\<not> is_space (digit_char d)" "digit_char d \<noteq> CHR ''-''" "digit_char d \<noteq> CHR ''+''"
  "digit_char d \<noteq> CHR ''i''" "digit_char d \<noteq> CHR ''n''"
  by (simp_all add: digit_char_def is_space_def)

lemma string_of_nat_digits: "list_all is_digit (string_of_nat n)"
proof (induction n rule: string_of_nat.induct)
  case (1 n)
  show ?case
    using 1 by (subst string_of_nat.simps) (simp add: is_digit_digit_char)
qed

lemma string_of_nat_nonempty: "string_of_nat n \<noteq> []"
  by (subst string_of_nat.simps) simp

lemma nat_of_digits_snoc:
  "nat_of_digits (xs @ [c]) =
     10 * nat_of_digits xs + (case digit_val c of Some d \<Rightarrow> d | None \<Rightarrow> 0)"
  by (simp add: nat_of_digits_def)

lemma nat_of_digits_string_of_nat: "nat_of_digits (string_of_nat n) = n"
proof (induction n rule: string_of_nat.induct)
  case (1 n)
  show ?case
  proof (cases "n < 10")
    case True
    then show ?thesis
      by (subst string_of_nat.simps) (simp add: nat_of_digits_def digit_val_digit_char)
  next
    case False
    have "n mod 10 < 10" by simp
    then have "digit_val (digit_char (n mod 10)) = Some (n mod 10)"
      by (rule digit_val_digit_char)
    with False 1 show ?thesis
      by (subst string_of_nat.simps) (simp add: nat_of_digits_snoc)
  qed
qed

lemma length_string_of_nat: "n < 10 ^ k \<Longrightarrow> 0 < k \<Longrightarrow> length (string_of_nat n) \<le> k"
proof (induction n arbitrary: k rule: string_of_nat.induct)
  case (1 n)
  show ?case
  proof (cases "n < 10")
    case True
    then show ?thesis using "1.prems" by (subst string_of_nat.simps) simp
  next
    case False
    obtain j where k: "k = Suc j" using "1.prems"(2) by (cases k) auto
    have j: "0 < j"
    proof (rule ccontr)
      assume "\<not> 0 < j"
      then have "k = 1" using k by simp
      with "1.prems"(1) False show False by simp
    qed
    have "n div 10 < 10 ^ j" using "1.prems"(1) k by (simp add: less_mult_imp_div_less mult.commute)
    from "1.IH" [OF False this j] False k show ?thesis
      by (subst string_of_nat.simps) simp
  qed
qed

lemma nat_of_digits_zeros: "nat_of_digits (replicate j (CHR ''0'') @ s) = nat_of_digits s"
  by (induction j) (simp_all add: nat_of_digits_def digit_val_def digit_char_def)


lemma list_all_digit_zeros: "list_all is_digit (replicate j (CHR ''0''))"
  by (induction j) (simp_all add: is_digit_def digit_val_def digit_char_def)

lemma parse_unsigned_point:
  assumes "list_all is_digit w" and "w \<noteq> []" and "list_all is_digit ds"
  shows "parse_unsigned (w @ CHR ''.'' # ds) =
           Some (of_nat (nat_of_digits w) + of_nat (nat_of_digits ds) / 10 ^ length ds)"
proof -
  have nd: "\<not> is_digit CHR ''.''" by (simp add: is_digit_def digit_val_def digit_char_def)
  have w: "\<And>x. x \<in> set w \<Longrightarrow> is_digit x" using assms(1) by (simp add: list_all_iff)
  have t: "takeWhile is_digit (w @ CHR ''.'' # ds) = w"
    using w nd by (simp add: takeWhile_append2)
  have d: "dropWhile is_digit (w @ CHR ''.'' # ds) = CHR ''.'' # ds"
    using w nd by (simp add: dropWhile_append2)
  show ?thesis
    unfolding parse_unsigned_def t d Let_def using assms(2,3) by simp
qed

lemma parse_unsigned_fixed_point:
  assumes "0 < k"
  shows "parse_unsigned (fixed_point k a) =
           Some (of_nat (nat (round_half_even (a * 10 ^ k))) / 10 ^ k)"
proof -
  define n where "n = nat (round_half_even (a * 10 ^ k))"
  define ds where "ds = replicate (k - length (string_of_nat (n mod 10 ^ k))) (CHR ''0'')
                          @ string_of_nat (n mod 10 ^ k)"
  have fp: "fixed_point k a = string_of_nat (n div 10 ^ k) @ CHR ''.'' # ds"
    by (simp add: fixed_point_def Let_def n_def ds_def)
  have "n mod 10 ^ k < 10 ^ k" by simp
  then have "length (string_of_nat (n mod 10 ^ k)) \<le> k"
    using assms by (rule length_string_of_nat)
  then have len: "length ds = k" by (simp add: ds_def)
  have dig: "list_all is_digit ds"
    by (simp add: ds_def list_all_digit_zeros string_of_nat_digits)
  have val: "nat_of_digits ds = n mod 10 ^ k"
    by (simp add: ds_def nat_of_digits_zeros nat_of_digits_string_of_nat)
  have "parse_unsigned (fixed_point k a) =
          Some (of_nat (n div 10 ^ k) + of_nat (n mod 10 ^ k) / 10 ^ k)"
    unfolding fp
    using parse_unsigned_point [OF string_of_nat_digits string_of_nat_nonempty dig]
    by (simp add: nat_of_digits_string_of_nat val len)
  also have "(of_nat (n div 10 ^ k) + of_nat (n mod 10 ^ k) / 10 ^ k :: real) = of_nat n / 10 ^ k"
  proof -
    have "n = n div 10 ^ k * 10 ^ k + n mod 10 ^ k"
      by (rule div_mult_mod_eq [symmetric])
    then have "(of_nat n :: real) = of_nat (n div 10 ^ k * 10 ^ k + n mod 10 ^ k)" by simp
    also have "\<dots> = of_nat (n div 10 ^ k) * 10 ^ k + of_nat (n mod 10 ^ k)"
      by (simp only: of_nat_add of_nat_mult of_nat_power of_nat_numeral)
    finally have "(of_nat n :: real) / 10 ^ k =
        (of_nat (n div 10 ^ k) * 10 ^ k + of_nat (n mod 10 ^ k)) / 10 ^ k" by simp
    then show ?thesis by (simp add: add_divide_distrib)
  qed
  finally show ?thesis by (simp add: n_def)
qed

lemma fixed_point_head:
  "\<exists>d rest. fixed_point k a = digit_char d # rest"
proof -
  define n where "n = nat (round_half_even (a * 10 ^ k)) div 10 ^ k"
  have "\<exists>d rest. string_of_nat n = digit_char d # rest"
  proof (induction n rule: string_of_nat.induct)
    case (1 n)
    show ?case
    proof (cases "n < 10")
      case True
      then show ?thesis by (subst string_of_nat.simps) auto
    next
      case False
      with 1 obtain d rest where "string_of_nat (n div 10) = digit_char d # rest" by blast
      with False show ?thesis by (subst string_of_nat.simps) auto
    qed
  qed
  then show ?thesis by (auto simp: fixed_point_def Let_def n_def)
qed

lemma fixed_point_no_space: "c \<in> set (fixed_point k a) \<Longrightarrow> \<not> is_space c"
proof -
  have d: "\<And>n c. c \<in> set (string_of_nat n) \<Longrightarrow> is_digit c"
    using string_of_nat_digits by (simp add: list_all_iff)
  have s: "\<not> is_space c" if "is_digit c" for c
  proof -
    from that obtain d where "c = digit_char d"
      unfolding is_digit_def digit_val_def find_None_iff by blast
    then show ?thesis by (simp add: digit_char_plain)
  qed
  assume "c \<in> set (fixed_point k a)"
  then have "is_digit c \<or> c = CHR ''.'' \<or> c = CHR ''0''"
    by (auto simp: fixed_point_def Let_def dest: d)
  then show ?thesis using s by (auto simp: is_space_def)
qed

lemma format_f_no_space: "c \<in> set (format_f k v) \<Longrightarrow> \<not> is_space c"
  by (cases v) (auto simp: is_space_def dest: fixed_point_no_space split: if_splits)

lemma format_f_nonempty: "format_f k v \<noteq> []"
proof (cases v)
  case (Fin a)
  obtain d rest where "fixed_point k \<bar>a\<bar> = digit_char d # rest"
    using fixed_point_head by blast
  then show ?thesis using Fin by simp
qed simp_all

lemma first_token_blank:
  assumes "t \<noteq> []" and "\<And>c. c \<in> set t \<Longrightarrow> \<not> is_space c"
  shows "first_token (t @ CHR '' '' # rest) = Some t"
proof -
  obtain c cs where t: "t = c # cs" using assms(1) by (cases t) auto
  have c: "\<not> is_space c" using assms(2) t by simp
  have sp: "is_space CHR '' ''" by (simp add: is_space_def)
  have d: "dropWhile is_space (t @ CHR '' '' # rest) = t @ CHR '' '' # rest"
    using c t by simp
  have "takeWhile (\<lambda>c. \<not> is_space c) (t @ CHR '' '' # rest) = t"
    using assms(2) sp by (simp add: takeWhile_append2)
  then show ?thesis unfolding first_token_def d Let_def using t by simp
qed

lemma parse_float_format_f:
  assumes "0 < k"
  shows "parse_float (format_f k v) = Some (round_to k v)"
proof (cases v)
  case (Fin a)
  obtain d rest where h: "fixed_point k \<bar>a\<bar> = digit_char d # rest"
    using fixed_point_head by blast
  have body: "parse_signed neg (fixed_point k \<bar>a\<bar>) =
                Some (Fin ((if neg then - 1 else 1) * of_int (round_half_even (\<bar>a\<bar> * 10 ^ k)) / 10 ^ k))"
    for neg
  proof -
    have ne: "fixed_point k \<bar>a\<bar> \<noteq> ''inf''" "fixed_point k \<bar>a\<bar> \<noteq> ''infinity''"
      "fixed_point k \<bar>a\<bar> \<noteq> ''nan''"
      using h digit_char_plain [of d] by auto
    have nn: "0 \<le> round_half_even (\<bar>a\<bar> * 10 ^ k)"
      by (simp add: round_half_even_def Let_def)
    show ?thesis
      using ne nn parse_unsigned_fixed_point [OF assms, of "\<bar>a\<bar>"]
      by (simp add: parse_signed_def)
  qed
  show ?thesis
  proof (cases "a < 0")
    case True
    then show ?thesis using Fin body [of True] by (simp add: parse_float_def)
  next
    case False
    then show ?thesis
      using Fin body [of False] h digit_char_plain [of d] by (simp add: parse_float_def)
  qed
qed (simp_all add: parse_float_def parse_signed_def signed_inf_def)

lemma leading_number_add_arrow:
  "leading_number (add_arrow (MFloat v)) = Inr (round_to 2 v)"
proof -
  have "first_token (format_f 2 v @ '' '' @ arrow) = Some (format_f 2 v)" for arrow
    using first_token_blank [OF format_f_nonempty format_f_no_space] by simp
  then show ?thesis by (simp add: parse_float_format_f)
qed

section \<open>Properties of the metrics\<close>

lemma intraday_backtest:
  "backtest intraday_bars 1000 = Inr (intraday_frame, intraday_trades)"
  by (simp add: backtest_def run_loop_def intraday_bars_def intraday_frame_def
      intraday_trades_def init_sim_def portfolio_columns_def step_defs close_remaining_def
      final_trade_def trades_table_def augmented_def cumulative_def Let_def)

lemma intraday_days: "elapsed_days intraday_frame = 0"
  by (simp add: elapsed_days_def intraday_frame_def timedelta_days_def)

lemma end_to_end_days: "elapsed_days end_to_end_frame = 3"
  by (simp add: elapsed_days_def end_to_end_frame_def end_to_end_rows_def timedelta_days_def)

lemma calculate_raises:
  assumes "cumulative_returns d = Some cum" and "cum \<noteq> []" and "rows d \<noteq> []"
    and "elapsed_days d = 0"
  shows "calculate_performance_metrics d ts = (d, Inl ZeroDivisionError)"
  using assms by (simp add: calculate_performance_metrics_def)

lemma intraday_columns:
  "cumulative_returns intraday_frame = Some [Fin 0, Fin 0]" "rows intraday_frame \<noteq> []"
  "previous_peak intraday_frame = None" "drawdown intraday_frame = None"
  by (simp_all add: intraday_frame_def)

text \<open>
  C5 (as stated, refuted). The two intraday rows give a run that returns; on its table the
  difference of the last and the first index value has zero days, \<^verbatim>\<open>365/days\<close>
  divides Python integers, and the metrics computation raises instead of returning a
  dictionary with non-finite entries.
\<close>

theorem zero_days_counterexample:
  "backtest intraday_bars 1000 = Inr (intraday_frame, intraday_trades) \<and>
   elapsed_days intraday_frame = 0 \<and>
   calculate_performance_metrics intraday_frame intraday_trades =
     (intraday_frame, Inl ZeroDivisionError)"
  using calculate_raises [OF intraday_columns(1) _ intraday_columns(2) intraday_days]
  by (simp add: intraday_backtest intraday_days)

text \<open>
  C5 (amended). When the table is not empty and the elapsed time between its first and
  its last timestamp is zero days, the metrics computation returns no dictionary: it
  raises \<^verbatim>\<open>ZeroDivisionError\<close> at the annualisation, before it has written
  anything into the table.
\<close>

theorem zero_days_raise:
  assumes "cumulative_returns d = Some cum" and "cum \<noteq> []" and "rows d \<noteq> []"
    and "elapsed_days d = 0"
  shows "calculate_performance_metrics d ts = (d, Inl ZeroDivisionError)"
  using assms by (rule calculate_raises)

theorem zero_days_raise_witness:
  "cumulative_returns intraday_frame = Some [Fin 0, Fin 0] \<and>
   rows intraday_frame \<noteq> [] \<and> elapsed_days intraday_frame = 0 \<and>
   calculate_performance_metrics intraday_frame [] = (intraday_frame, Inl ZeroDivisionError)"
proof -
  have c: "cumulative_returns intraday_frame = Some [Fin 0, Fin 0]"
    and r: "rows intraday_frame \<noteq> []" by (simp_all add: intraday_frame_def)
  have n: "[Fin 0, Fin 0] \<noteq> []" by simp
  show ?thesis using zero_days_raise [OF c n r intraday_days, of "[]"] c r intraday_days by simp
qed

lemma calculate_returns:
  assumes "cumulative_returns d = Some cum" and "cum \<noteq> []" and "rows d \<noteq> []"
    and "elapsed_days d \<noteq> 0"
  shows "calculate_performance_metrics d ts =
           (with_drawdown d, trade_metrics ts (series_metrics d (last cum) (elapsed_days d)))"
  using assms by (simp add: calculate_performance_metrics_def)

lemma end_to_end_columns:
  "cumulative_returns end_to_end_frame =
     Some [Fin 0, Fin 0, Fin (- (9 / 100)), Fin (- (9 / 40))]"
  "rows end_to_end_frame = end_to_end_rows" "end_to_end_rows \<noteq> []"
  "previous_peak end_to_end_frame = None" "drawdown end_to_end_frame = None"
  by (simp_all add: end_to_end_frame_def end_to_end_rows_def)

lemma end_to_end_calculate:
  "calculate_performance_metrics end_to_end_frame ts =
     (with_drawdown end_to_end_frame,
      trade_metrics ts (series_metrics end_to_end_frame (Fin (- (9 / 40))) 3))"
  using calculate_returns [of end_to_end_frame _ ts] end_to_end_columns end_to_end_days
  by simp

text \<open>
  C7. When the trade log is empty and the call gets past the annualisation (a table that
  is not empty, with elapsed days other than zero), the call returns and each of the ten
  trade metrics of the dictionary is the integer 0.
\<close>

theorem no_trades_defaults:
  assumes "cumulative_returns d = Some cum" and "cum \<noteq> []" and "rows d \<noteq> []"
    and "elapsed_days d \<noteq> 0"
  shows "lookup_metric ''total_trades'' (snd (calculate_performance_metrics d [])) = Some (MInt 0) \<and>
    lookup_metric ''winning_trades'' (snd (calculate_performance_metrics d [])) = Some (MInt 0) \<and>
    lookup_metric ''losing_trades'' (snd (calculate_performance_metrics d [])) = Some (MInt 0) \<and>
    lookup_metric ''win_rate'' (snd (calculate_performance_metrics d [])) = Some (MInt 0) \<and>
    lookup_metric ''avg_profit'' (snd (calculate_performance_metrics d [])) = Some (MInt 0) \<and>
    lookup_metric ''avg_profit_pct'' (snd (calculate_performance_metrics d [])) = Some (MInt 0) \<and>
    lookup_metric ''avg_loss'' (snd (calculate_performance_metrics d [])) = Some (MInt 0) \<and>
    lookup_metric ''avg_loss_pct'' (snd (calculate_performance_metrics d [])) = Some (MInt 0) \<and>
    lookup_metric ''profit_factor'' (snd (calculate_performance_metrics d [])) = Some (MInt 0) \<and>
    lookup_metric ''avg_trade_duration'' (snd (calculate_performance_metrics d [])) = Some (MInt 0)"
  unfolding calculate_returns [OF assms]
  by (intro conjI) (simp_all add: trade_metrics_def)

theorem no_trades_defaults_witness:
  "cumulative_returns end_to_end_frame = Some [Fin 0, Fin 0, Fin (- (9 / 100)), Fin (- (9 / 40))] \<and>
   rows end_to_end_frame \<noteq> [] \<and> elapsed_days end_to_end_frame \<noteq> 0 \<and>
   lookup_metric ''total_trades'' (snd (calculate_performance_metrics end_to_end_frame [])) = Some (MInt 0) \<and>
   lookup_metric ''win_rate'' (snd (calculate_performance_metrics end_to_end_frame [])) = Some (MInt 0) \<and>
   lookup_metric ''profit_factor'' (snd (calculate_performance_metrics end_to_end_frame [])) = Some (MInt 0) \<and>
   lookup_metric ''avg_trade_duration'' (snd (calculate_performance_metrics end_to_end_frame [])) = Some (MInt 0)"
proof -
  have r: "rows end_to_end_frame \<noteq> []" and d: "elapsed_days end_to_end_frame \<noteq> 0"
    by (simp_all add: end_to_end_columns end_to_end_days)
  have n: "[Fin 0, Fin 0, Fin (- (9 / 100)), Fin (- (9 / 40))] \<noteq> []" by simp
  show ?thesis
    using no_trades_defaults [OF end_to_end_columns(1) n r d] end_to_end_columns(1) r d
    by simp
qed

lemma cummax_from_nth:
  "i < length xs \<Longrightarrow> cummax_from m xs ! i = Max (insert m (set (take (Suc i) xs)))"
proof (induction xs arbitrary: m i)
  case Nil
  then show ?case by simp
next
  case (Cons x xs)
  show ?case
  proof (cases i)
    case 0
    then show ?thesis by (simp add: max.commute)
  next
    case (Suc j)
    then have j: "j < length xs" using Cons.prems by simp
    define S where "S = set (take (Suc j) xs)"
    have fin: "finite S" and ne: "S \<noteq> {}" using j by (auto simp: S_def)
    have "Max (insert (max m x) S) = max (max m x) (Max S)"
      using fin ne by (rule Max_insert)
    also have "\<dots> = max m (max x (Max S))" by (simp add: max.assoc)
    also have "max x (Max S) = Max (insert x S)"
      using fin ne by (simp add: Max_insert)
    also have "max m (Max (insert x S)) = Max (insert m (insert x S))"
      using fin by (simp add: Max_insert)
    finally have "Max (insert (max m x) S) = Max (insert m (insert x S))" .
    with Cons.IH [OF j, of "max m x"] Suc show ?thesis
      by (simp add: S_def)
  qed
qed

lemma cummax_nth:
  assumes "i < length xs"
  shows "cummax xs ! i = Max (set (take (Suc i) xs))"
proof (cases xs)
  case Nil
  then show ?thesis using assms by simp
next
  case (Cons x ys)
  show ?thesis
  proof (cases i)
    case 0
    then show ?thesis using Cons by (simp add: cummax_def)
  next
    case (Suc j)
    then have "j < length ys" using assms Cons by simp
    from cummax_from_nth [OF this, of x] Suc Cons show ?thesis
      by (simp add: cummax_def)
  qed
qed

lemma length_cummax: "length (cummax xs) = length xs"
proof -
  have "length (cummax_from m ys) = length ys" for m ys
    by (induction ys arbitrary: m) simp_all
  then show ?thesis by (cases xs) (simp_all add: cummax_def)
qed

text \<open>
  C10 (amended). When the table is not empty and its elapsed days are not zero, the
  table of the caller is, after the call, the table it was with the two columns
  \<^verbatim>\<open>previous_peak\<close> and \<^verbatim>\<open>drawdown\<close> set: the rows and the cumulative
  returns are what they were, the peak of a row is the maximum of the total values up to
  that row, and the drawdown of a row is the quotient of the total value less the peak by
  the peak.
\<close>

theorem metrics_write_drawdown:
  assumes "cumulative_returns d = Some cum" and "cum \<noteq> []" and "rows d \<noteq> []"
    and "elapsed_days d \<noteq> 0"
  shows "fst (calculate_performance_metrics d ts) =
           d\<lparr>previous_peak := Some (cummax (map total_value (rows d))),
             drawdown := Some (drawdown_column (map total_value (rows d))
                                 (cummax (map total_value (rows d))))\<rparr> \<and>
         rows (fst (calculate_performance_metrics d ts)) = rows d \<and>
         cumulative_returns (fst (calculate_performance_metrics d ts)) = cumulative_returns d \<and>
         (\<forall>i<length (rows d).
            cummax (map total_value (rows d)) ! i =
              Max (set (take (Suc i) (map total_value (rows d)))) \<and>
            drawdown_column (map total_value (rows d)) (cummax (map total_value (rows d))) ! i =
              fdiv (Fin (total_value (rows d ! i) - cummax (map total_value (rows d)) ! i))
                   (Fin (cummax (map total_value (rows d)) ! i)))"
  unfolding calculate_returns [OF assms]
  by (simp add: with_drawdown_def Let_def cummax_nth drawdown_column_def length_cummax)

theorem metrics_write_drawdown_witness:
  "cumulative_returns end_to_end_frame =
     Some [Fin 0, Fin 0, Fin (- (9 / 100)), Fin (- (9 / 40))] \<and>
   rows end_to_end_frame \<noteq> [] \<and> elapsed_days end_to_end_frame \<noteq> 0 \<and>
   (3::nat) < length (rows end_to_end_frame) \<and>
   previous_peak end_to_end_frame = None \<and>
   previous_peak (fst (calculate_performance_metrics end_to_end_frame end_to_end_trades)) =
     Some [1000, 1000, 1000, 1000] \<and>
   drawdown (fst (calculate_performance_metrics end_to_end_frame end_to_end_trades)) =
     Some [Fin 0, Fin 0, Fin (- (9 / 100)), Fin (- (9 / 40))] \<and>
   rows (fst (calculate_performance_metrics end_to_end_frame end_to_end_trades)) =
     rows end_to_end_frame \<and>
   cummax (map total_value (rows end_to_end_frame)) ! 3 =
     Max (set (take (Suc 3) (map total_value (rows end_to_end_frame))))"
proof -
  have r: "rows end_to_end_frame \<noteq> []" and d: "elapsed_days end_to_end_frame \<noteq> 0"
    by (simp_all add: end_to_end_columns end_to_end_days)
  have n: "[Fin 0, Fin 0, Fin (- (9 / 100)), Fin (- (9 / 40))] \<noteq> []" by simp
  have l: "(3::nat) < length (rows end_to_end_frame)"
    by (simp add: end_to_end_columns end_to_end_rows_def)
  have v: "map total_value (rows end_to_end_frame) = [1000, 1000, 910, 775]"
    by (simp add: end_to_end_columns end_to_end_rows_def)
  have p: "cummax [1000, 1000, 910, 775 :: real] = [1000, 1000, 1000, 1000]"
    by (simp add: cummax_def)
  have dd: "drawdown_column [1000, 1000, 910, 775] [1000, 1000, 1000, 1000] =
              [Fin 0, Fin 0, Fin (- (9 / 100)), Fin (- (9 / 40))]"
    by (simp add: drawdown_column_def)
  from metrics_write_drawdown [OF end_to_end_columns(1) n r d, of end_to_end_trades]
  have "fst (calculate_performance_metrics end_to_end_frame end_to_end_trades) =
          end_to_end_frame\<lparr>previous_peak := Some [1000, 1000, 1000, 1000],
            drawdown := Some [Fin 0, Fin 0, Fin (- (9 / 100)), Fin (- (9 / 40))]\<rparr>"
    and "cummax (map total_value (rows end_to_end_frame)) ! 3 =
           Max (set (take (Suc 3) (map total_value (rows end_to_end_frame))))"
    using l unfolding v p dd by simp_all
  then show ?thesis
    using end_to_end_columns(1,4) r d l by simp
qed

text \<open>
  C10 (as stated, refuted). Not every table is changed: on the table of the two intraday
  rows the call raises before line 173, and the table of the caller has neither column
  afterwards.
\<close>

theorem metrics_write_drawdown_counterexample:
  "backtest intraday_bars 1000 = Inr (intraday_frame, intraday_trades) \<and>
   fst (calculate_performance_metrics intraday_frame intraday_trades) = intraday_frame \<and>
   previous_peak (fst (calculate_performance_metrics intraday_frame intraday_trades)) = None \<and>
   drawdown (fst (calculate_performance_metrics intraday_frame intraday_trades)) = None"
  using calculate_raises [OF intraday_columns(1) _ intraday_columns(2) intraday_days]
  by (simp add: intraday_backtest intraday_columns)

section \<open>Properties of the profit factor\<close>

lemma losing_count: "int (length ts) - int (length (winners ts)) = int (length (losers ts))"
proof -
  have "length (winners ts) + length (losers ts) = length ts"
    unfolding winners_def losers_def by (rule sum_length_filter_compl)
  then show ?thesis by linarith
qed

lemma leading_mean:
  "leading_number (if 0 < int (length xs) then mean_of column xs else MInt 0) =
     Inr (displayed_mean column xs)"
  by (cases xs) (simp_all add: mean_of_def displayed_mean_def leading_number_add_arrow
      del: add_arrow.simps)

lemma nonzero_mean: "nonzero (mean_of column xs)"
  by (cases "nanmean (map column xs)") (simp_all add: mean_of_def)

lemma profit_factor_of_means:
  "profit_factor_of (if 0 < int (length ws) then mean_of c ws else MInt 0)
     (if 0 < int (length ls) then mean_of c ls else MInt 0) (int (length ws)) (int (length ls)) =
   Inr (if ls = [] then MFloat PInf
        else add_arrow (MFloat (fabs (fdiv
               (fmul (displayed_mean c ws) (Fin (of_nat (length ws))))
               (fmul (displayed_mean c ls) (Fin (of_nat (length ls))))))))"
proof (cases "ls = []")
  case True
  then show ?thesis by (simp add: profit_factor_of_def)
next
  case False
  then have l: "0 < int (length ls)" by simp
  have lm: "leading_number (mean_of c ls) = Inr (displayed_mean c ls)"
    using leading_mean [of ls c] l by simp
  show ?thesis
    unfolding profit_factor_of_def
    using False l leading_mean [of ws c] lm nonzero_mean [of c ls]
    by (simp del: add_arrow.simps)
qed

lemma trade_metrics_profit_factor:
  assumes "ts \<noteq> []"
  shows "lookup_metric ''profit_factor'' (trade_metrics ts m) =
     Some (if losers ts = [] then MFloat PInf
           else add_arrow (MFloat (fabs (fdiv
                  (fmul (displayed_mean profit_loss_f (winners ts))
                        (Fin (of_nat (length (winners ts)))))
                  (fmul (displayed_mean profit_loss_f (losers ts))
                        (Fin (of_nat (length (losers ts)))))))))"
proof -
  have l: "0 < length ts" using assms by simp
  show ?thesis
    unfolding trade_metrics_def Let_def losing_count
      profit_factor_of_means [of "winners ts" profit_loss_f "losers ts"]
    using l by (simp del: add_arrow.simps)
qed


lemmas format_defs = fixed_point_def round_half_even_def digit_char_def up_arrow_def
  down_arrow_def day_label_def

lemma two_trades_split:
  "winners two_trades = [two_trades ! 0]" "losers two_trades = [two_trades ! 1]"
  "nanmean (map profit_loss_f (winners two_trades)) = Fin 10"
  "nanmean (map profit_loss_f (losers two_trades)) = Fin (- 0.014)"
  by (simp_all add: winners_def losers_def two_trades_def nanmean_def not_nan_def fsum_def
      profit_loss_f_def)

lemma two_trades_counts:
  "length (winners two_trades) = 1" "length (losers two_trades) = 1"
  "losers two_trades \<noteq> []"
  by (simp_all add: two_trades_split(1,2))

lemma two_trades_profit_factor:
  "lookup_metric ''profit_factor'' (trade_metrics two_trades m) =
     Some (MStr (''1000.00 '' @ up_arrow))"
proof -
  have t: "two_trades \<noteq> []" by (simp add: two_trades_def)
  have w: "displayed_mean profit_loss_f (winners two_trades) = Fin 10"
    unfolding displayed_mean_def two_trades_split(3)
    by (simp add: two_trades_split(1) round_half_even_def)
  have l: "displayed_mean profit_loss_f (losers two_trades) = Fin (- (1 / 100))"
    unfolding displayed_mean_def two_trades_split(4)
    by (simp add: two_trades_split(2) round_half_even_def)
  show ?thesis
    unfolding trade_metrics_profit_factor [OF t] w l
    by (simp add: two_trades_split(1,2) format_defs)
qed

text \<open>
  C6 (as stated, refuted). With one winner of 10 and one loser of 0.014 the formula of the
  specification gives 10 / 0.014, about 714.29. The code reads the two means back from
  their display strings, 10.00 and -0.01, and stores the display string of 1000.
\<close>

theorem profit_factor_counterexample:
  "lookup_metric ''profit_factor''
     (snd (calculate_performance_metrics end_to_end_frame two_trades)) =
     Some (MStr (''1000.00 '' @ up_arrow)) \<and>
   losers two_trades \<noteq> [] \<and>
   nanmean (map profit_loss_f (winners two_trades)) = Fin 10 \<and>
   nanmean (map profit_loss_f (losers two_trades)) = Fin (- 0.014) \<and>
   length (winners two_trades) = 1 \<and> length (losers two_trades) = 1 \<and>
   \<bar>10 * 1 / (- 0.014 * 1)\<bar> \<noteq> (1000::real) \<and>
   add_arrow (MFloat (Fin \<bar>10 * 1 / (- 0.014 * 1)\<bar>)) = MStr (''714.29 '' @ up_arrow)"
proof -
  have "add_arrow (MFloat (Fin \<bar>10 * 1 / (- 0.014 * 1)\<bar>)) = MStr (''714.29 '' @ up_arrow)"
    by (simp add: format_defs)
  then show ?thesis
    by (simp add: end_to_end_calculate two_trades_profit_factor two_trades_split(3,4)
        two_trades_counts del: add_arrow.simps)
qed

text \<open>
  C6 (amended). For a trade log that is not empty (and a table on which the call gets past
  the annualisation) the call returns, and the profit factor is positive infinity when no
  trade has a profit of 0 or less; otherwise it is the display string, two decimals and
  an arrow, of the absolute value of a times the number of winners over l times the
  number of losers, where a and l are the mean profit of the winners and of the losers
  as displayed, rounded to two decimals (a is 0 without winners). A displayed mean loss of
  0.00 makes the quotient infinite or NaN.
\<close>

theorem profit_factor_value:
  assumes "cumulative_returns d = Some cum" and "cum \<noteq> []" and "rows d \<noteq> []"
    and "elapsed_days d \<noteq> 0" and "ts \<noteq> []"
  shows "lookup_metric ''profit_factor'' (snd (calculate_performance_metrics d ts)) =
     Some (if losers ts = [] then MFloat PInf
           else add_arrow (MFloat (fabs (fdiv
                  (fmul (displayed_mean profit_loss_f (winners ts))
                        (Fin (of_nat (length (winners ts)))))
                  (fmul (displayed_mean profit_loss_f (losers ts))
                        (Fin (of_nat (length (losers ts)))))))))"
  unfolding calculate_returns [OF assms(1-4)] snd_conv
  using assms(5) by (rule trade_metrics_profit_factor)

theorem profit_factor_value_witness:
  "cumulative_returns end_to_end_frame =
     Some [Fin 0, Fin 0, Fin (- (9 / 100)), Fin (- (9 / 40))] \<and>
   rows end_to_end_frame \<noteq> [] \<and> elapsed_days end_to_end_frame \<noteq> 0 \<and>
   two_trades \<noteq> [] \<and> [hd two_trades] \<noteq> [] \<and>
   losers two_trades \<noteq> [] \<and> losers [hd two_trades] = [] \<and>
   lookup_metric ''profit_factor''
     (snd (calculate_performance_metrics end_to_end_frame two_trades)) =
     Some (add_arrow (MFloat (fabs (fdiv (fmul (Fin 10) (Fin 1))
                                         (fmul (Fin (- (1 / 100))) (Fin 1)))))) \<and>
   lookup_metric ''profit_factor''
     (snd (calculate_performance_metrics end_to_end_frame [hd two_trades])) =
     Some (MFloat PInf)"
proof -
  have r: "rows end_to_end_frame \<noteq> []" and d: "elapsed_days end_to_end_frame \<noteq> 0"
    by (simp_all add: end_to_end_columns end_to_end_days)
  have n: "[Fin 0, Fin 0, Fin (- (9 / 100)), Fin (- (9 / 40))] \<noteq> []" by simp
  have t: "two_trades \<noteq> []" and h: "[hd two_trades] \<noteq> []" by (simp_all add: two_trades_def)
  have w: "displayed_mean profit_loss_f (winners two_trades) = Fin 10"
    unfolding displayed_mean_def two_trades_split(3)
    by (simp add: two_trades_split(1) round_half_even_def)
  have l: "displayed_mean profit_loss_f (losers two_trades) = Fin (- (1 / 100))"
    unfolding displayed_mean_def two_trades_split(4)
    by (simp add: two_trades_split(2) round_half_even_def)
  have lh: "losers [hd two_trades] = []" by (simp add: losers_def two_trades_def)
  show ?thesis
    using profit_factor_value [OF end_to_end_columns(1) n r d t]
      profit_factor_value [OF end_to_end_columns(1) n r d h]
      end_to_end_columns(1) r d t h lh
    unfolding w l
    by (simp add: two_trades_counts del: add_arrow.simps)
qed

section \<open>Properties of the display step\<close>

lemma foldl_format_numeric:
  "foldl (format_numeric m) f ks key =
     (if key \<in> set ks
      then Some (case m key of
                   Some v \<Rightarrow> if nonzero v then add_arrow_display v else v
                 | None \<Rightarrow> MInt 0)
      else f key)"
proof (induction ks arbitrary: f)
  case Nil
  then show ?case by simp
next
  case (Cons k ks)
  show ?case
    unfolding foldl_Cons Cons.IH
    by (auto simp: format_numeric_def split: option.splits)
qed

lemma foldl_format_count:
  "foldl (format_count m) f ks key =
     (if key \<in> set ks \<and> m key \<noteq> None then m key else f key)"
proof (induction ks arbitrary: f)
  case Nil
  then show ?case by simp
next
  case (Cons k ks)
  show ?case
    unfolding foldl_Cons Cons.IH
    by (auto simp: format_count_def split: option.splits)
qed

lemma format_duration_other:
  "format_duration m f = Inr g \<Longrightarrow> key \<noteq> ''avg_trade_duration'' \<Longrightarrow> g key = f key"
  by (auto simp: format_duration_def split: option.splits metric.splits)

lemma format_duration_float:
  "format_duration m f = Inr g \<Longrightarrow> m ''avg_trade_duration'' = Some (MFloat u) \<Longrightarrow>
   g ''avg_trade_duration'' = Some (MStr (format_f 1 u @ '' '' @ day_label))"
  by (auto simp: format_duration_def)

lemma numeric_key:
  "key \<in> set numeric_metrics \<Longrightarrow> key \<notin> set count_metrics \<and> key \<noteq> ''avg_trade_duration''"
  by (auto simp: numeric_metrics_def count_metrics_def)

lemma display_numeric_key:
  assumes "key \<in> set numeric_metrics" and "format_metrics_for_display m = Inr formatted"
  shows "formatted key =
           Some (case m key of
                   Some v \<Rightarrow> if nonzero v then add_arrow_display v else v
                 | None \<Rightarrow> MInt 0)"
proof -
  from numeric_key [OF assms(1)] have c: "key \<notin> set count_metrics"
    and k: "key \<noteq> ''avg_trade_duration''" by simp_all
  have "formatted key =
          foldl (format_count m) (foldl (format_numeric m) Map.empty numeric_metrics)
            count_metrics key"
    using assms(2) k unfolding format_metrics_for_display_def
    by (rule format_duration_other)
  then show ?thesis
    using c assms(1) by (simp add: foldl_format_count foldl_format_numeric)
qed

lemma round_half_even_int: "round_half_even (of_int n) = n"
  by (simp add: round_half_even_def)

lemma fixed_point_rounded:
  assumes "round_half_even (a * 10 ^ k) = n"
  shows "fixed_point k (of_int n / 10 ^ k) = fixed_point k a"
proof -
  have "(of_int n / 10 ^ k * 10 ^ k :: real) = of_int n" by simp
  then have "round_half_even (of_int n / 10 ^ k * 10 ^ k) = n"
    by (simp add: round_half_even_int)
  then show ?thesis using assms by (simp add: fixed_point_def)
qed

lemma round_half_even_nonneg: "0 \<le> a \<Longrightarrow> 0 \<le> round_half_even a"
  by (simp add: round_half_even_def Let_def)

lemma reformat_format: "reformat (format_f 2 v) (round_to 2 v) = format_f 2 v"
proof (cases v)
  case (Fin a)
  define n where "n = round_half_even (\<bar>a\<bar> * 10 ^ 2)"
  have n0: "0 \<le> n" unfolding n_def by (rule round_half_even_nonneg) simp
  have fp: "fixed_point 2 (of_int n / 10 ^ 2) = fixed_point 2 \<bar>a\<bar>"
    by (rule fixed_point_rounded) (simp add: n_def)
  show ?thesis
  proof (cases "a < 0")
    case True
    have t: "format_f 2 (Fin a) = CHR ''-'' # fixed_point 2 \<bar>a\<bar>" using True by simp
    have r: "round_to 2 (Fin a) = Fin (- (of_int n / 10 ^ 2))"
      using True by (simp add: n_def)
    show ?thesis
    proof (cases "n = 0")
      case True
      with fp have "fixed_point 2 0 = fixed_point 2 \<bar>a\<bar>" by simp
      then show ?thesis unfolding Fin t r reformat_def using True by simp
    next
      case False
      then have pos: "0 < n" using n0 by simp
      then have "(of_int n / 10 ^ 2 :: real) > 0" by simp
      then show ?thesis unfolding Fin t r reformat_def using fp by simp
    qed
  next
    case False
    obtain d rest where h: "fixed_point 2 \<bar>a\<bar> = digit_char d # rest"
      using fixed_point_head by blast
    have t: "format_f 2 (Fin a) = digit_char d # rest" using False h by simp
    have r: "round_to 2 (Fin a) = Fin (of_int n / 10 ^ 2)"
      using False by (simp add: n_def)
    have "(of_int n / 10 ^ 2 :: real) \<ge> 0" using n0 by simp
    then have "format_f 2 (Fin (of_int n / 10 ^ 2)) = fixed_point 2 \<bar>a\<bar>"
      using fp by simp
    then show ?thesis
      unfolding Fin t r reformat_def using digit_char_plain(2) [of d] h by simp
  qed
qed (simp_all add: reformat_def)

lemma display_of_display_string:
  "add_arrow_display (add_arrow (MFloat v)) =
     MStr (format_f 2 v @ '' '' @ (if fpos (round_to 2 v) then up_arrow else down_arrow))"
proof -
  have ft: "first_token (format_f 2 v @ CHR '' '' # arrow) = Some (format_f 2 v)" for arrow
    using first_token_blank [OF format_f_nonempty format_f_no_space] by simp
  show ?thesis
    by (simp add: ft parse_float_format_f reformat_format)
qed


text \<open>
  C8 (amended). Under each of the eleven numeric keys the display step gives: for a float
  or a Python integer v other than 0, v with two decimals, a blank and the arrow up when
  v is greater than 0, the arrow down otherwise; for a value equal to 0, that value as it
  is, without decimals and without arrow; for an integer of numpy, that integer as it
  is; for the display string that the metrics computation wrote for a value v, the same
  two decimals again, with the arrow up when v rounded to two decimals is greater than
  0 and the arrow down otherwise; for a missing key, the integer 0. The mean duration,
  which is no count, gets one decimal and the day label, and no arrow.
\<close>

theorem display_arrow:
  assumes "key \<in> set numeric_metrics" and "format_metrics_for_display m = Inr formatted"
  shows
    "(\<forall>v. m key = Some (MFloat v) \<longrightarrow>
        formatted key =
          Some (if v = Fin 0 then MFloat v
                else MStr (format_f 2 v @ '' '' @ (if fpos v then up_arrow else down_arrow)))) \<and>
     (\<forall>n. m key = Some (MInt n) \<longrightarrow>
        formatted key =
          Some (if n = 0 then MInt n
                else MStr (format_f 2 (Fin (of_int n)) @ '' '' @
                           (if 0 < n then up_arrow else down_arrow)))) \<and>
     (\<forall>n. m key = Some (MNpInt n) \<longrightarrow> formatted key = Some (MNpInt n)) \<and>
     (\<forall>v. m key = Some (add_arrow (MFloat v)) \<longrightarrow>
        formatted key =
          Some (MStr (format_f 2 v @ '' '' @
                      (if fpos (round_to 2 v) then up_arrow else down_arrow)))) \<and>
     (m key = None \<longrightarrow> formatted key = Some (MInt 0)) \<and>
     (\<forall>u. m ''avg_trade_duration'' = Some (MFloat u) \<longrightarrow>
        formatted ''avg_trade_duration'' = Some (MStr (format_f 1 u @ '' '' @ day_label)))"
proof (intro conjI allI impI)
  note k = display_numeric_key [OF assms]
  show "formatted key =
          Some (if v = Fin 0 then MFloat v
                else MStr (format_f 2 v @ '' '' @ (if fpos v then up_arrow else down_arrow)))"
    if "m key = Some (MFloat v)" for v
    using k that by simp
  show "formatted key =
          Some (if n = 0 then MInt n
                else MStr (format_f 2 (Fin (of_int n)) @ '' '' @
                           (if 0 < n then up_arrow else down_arrow)))"
    if "m key = Some (MInt n)" for n
    using k that by simp
  show "formatted key = Some (MNpInt n)" if "m key = Some (MNpInt n)" for n
    using k that by simp
  show "formatted key =
          Some (MStr (format_f 2 v @ '' '' @
                      (if fpos (round_to 2 v) then up_arrow else down_arrow)))"
    if "m key = Some (add_arrow (MFloat v))" for v
  proof -
    have "nonzero (add_arrow (MFloat v))" by simp
    then show ?thesis
      using k that display_of_display_string [of v] by (simp del: add_arrow.simps)
  qed
  show "formatted key = Some (MInt 0)" if "m key = None"
    using k that by simp
  show "formatted ''avg_trade_duration'' = Some (MStr (format_f 1 u @ '' '' @ day_label))"
    if "m ''avg_trade_duration'' = Some (MFloat u)" for u
    using format_duration_float [of m _ formatted u] that assms(2)
    by (simp add: format_metrics_for_display_def)
qed

lemma sample_display:
  "\<exists>formatted. format_metrics_for_display sample_metrics = Inr formatted"
  by (simp add: format_metrics_for_display_def format_duration_def sample_metrics_def)

theorem display_arrow_witness:
  "''win_rate'' \<in> set numeric_metrics \<and> ''avg_profit'' \<in> set numeric_metrics \<and>
   ''avg_loss'' \<in> set numeric_metrics \<and> ''total_return'' \<in> set numeric_metrics \<and>
   ''volatility'' \<in> set numeric_metrics \<and> ''sharpe_ratio'' \<in> set numeric_metrics \<and>
   sample_metrics ''win_rate'' = Some (MFloat (Fin 50)) \<and>
   sample_metrics ''avg_profit'' = Some (MInt 3) \<and>
   sample_metrics ''avg_loss'' = Some (MInt 0) \<and>
   sample_metrics ''total_return'' = Some (MNpInt (- 100)) \<and>
   sample_metrics ''volatility'' = Some (add_arrow (MFloat (Fin 0.004))) \<and>
   sample_metrics ''volatility'' = Some (MStr (''0.00 '' @ up_arrow)) \<and>
   sample_metrics ''sharpe_ratio'' = None \<and>
   sample_metrics ''avg_trade_duration'' = Some (MFloat (Fin 1.5)) \<and>
   lookup_metric ''win_rate'' (format_metrics_for_display sample_metrics) =
     Some (MStr (''50.00 '' @ up_arrow)) \<and>
   lookup_metric ''avg_profit'' (format_metrics_for_display sample_metrics) =
     Some (MStr (''3.00 '' @ up_arrow)) \<and>
   lookup_metric ''avg_loss'' (format_metrics_for_display sample_metrics) = Some (MInt 0) \<and>
   lookup_metric ''total_return'' (format_metrics_for_display sample_metrics) =
     Some (MNpInt (- 100)) \<and>
   lookup_metric ''volatility'' (format_metrics_for_display sample_metrics) =
     Some (MStr (''0.00 '' @ down_arrow)) \<and>
   lookup_metric ''sharpe_ratio'' (format_metrics_for_display sample_metrics) =
     Some (MInt 0) \<and>
   lookup_metric ''avg_trade_duration'' (format_metrics_for_display sample_metrics) =
     Some (MStr (''1.5 '' @ day_label))"
proof -
  obtain formatted where f: "format_metrics_for_display sample_metrics = Inr formatted"
    using sample_display by blast
  have k: "''win_rate'' \<in> set numeric_metrics" "''avg_profit'' \<in> set numeric_metrics"
    "''avg_loss'' \<in> set numeric_metrics" "''total_return'' \<in> set numeric_metrics"
    "''volatility'' \<in> set numeric_metrics" "''sharpe_ratio'' \<in> set numeric_metrics"
    by (simp_all add: numeric_metrics_def)
  have s: "sample_metrics ''win_rate'' = Some (MFloat (Fin 50))"
    "sample_metrics ''avg_profit'' = Some (MInt 3)"
    "sample_metrics ''avg_loss'' = Some (MInt 0)"
    "sample_metrics ''total_return'' = Some (MNpInt (- 100))"
    "sample_metrics ''volatility'' = Some (add_arrow (MFloat (Fin 0.004)))"
    "sample_metrics ''sharpe_ratio'' = None"
    "sample_metrics ''avg_trade_duration'' = Some (MFloat (Fin 1.5))"
    by (simp_all add: sample_metrics_def)
  have a: "add_arrow (MFloat (Fin 0.004)) = MStr (''0.00 '' @ up_arrow)"
    by (simp add: format_defs)
  have d: "formatted ''win_rate'' = Some (MStr (''50.00 '' @ up_arrow))"
    "formatted ''avg_profit'' = Some (MStr (''3.00 '' @ up_arrow))"
    "formatted ''avg_loss'' = Some (MInt 0)"
    "formatted ''total_return'' = Some (MNpInt (- 100))"
    "formatted ''volatility'' = Some (MStr (''0.00 '' @ down_arrow))"
    "formatted ''sharpe_ratio'' = Some (MInt 0)"
    "formatted ''avg_trade_duration'' = Some (MStr (''1.5 '' @ day_label))"
    using display_arrow [OF k(1) f] display_arrow [OF k(2) f] display_arrow [OF k(3) f]
      display_arrow [OF k(4) f] display_arrow [OF k(5) f] display_arrow [OF k(6) f] s
    by (simp_all add: format_defs del: add_arrow.simps)
  show ?thesis
    using k s a d unfolding f by (simp del: add_arrow.simps)
qed

lemma default_display:
  "\<exists>formatted. format_metrics_for_display default_trade_metrics = Inr formatted"
  by (simp add: format_metrics_for_display_def format_duration_def default_trade_metrics_def)

text \<open>
  C8 (as stated, refuted). The win rate of an empty trade log is the integer 0; line 497
  formats a value only when it differs from 0, so the display step returns the integer 0
  for it and not the string of 0.00 with the arrow down that the helper of the metrics
  computation would write.
\<close>

theorem display_arrow_counterexample:
  "trade_metrics [] Map.empty = Inr default_trade_metrics \<and>
   lookup_metric ''win_rate'' (format_metrics_for_display default_trade_metrics) =
     Some (MInt 0) \<and>
   Some (MInt 0) \<noteq> Some (MStr (''0.00 '' @ down_arrow)) \<and>
   add_arrow (MInt 0) = MStr (''0.00 '' @ down_arrow)"
proof -
  obtain formatted where f: "format_metrics_for_display default_trade_metrics = Inr formatted"
    using default_display by blast
  have k: "''win_rate'' \<in> set numeric_metrics" by (simp add: numeric_metrics_def)
  have s: "default_trade_metrics ''win_rate'' = Some (MInt 0)"
    by (simp add: default_trade_metrics_def)
  have "formatted ''win_rate'' = Some (MInt 0)"
    using display_numeric_key [OF k f] s by simp
  moreover have "trade_metrics [] Map.empty = Inr default_trade_metrics"
    by (simp add: trade_metrics_def default_trade_metrics_def)
  moreover have "add_arrow (MInt 0) = MStr (''0.00 '' @ down_arrow)"
    by (simp add: format_defs)
  ultimately show ?thesis unfolding f by simp
qed

section \<open>Properties of the call\<close>













text \<open>
  The signal hook of the buy-and-hold strategy raises on a table of fewer than two rows,
  before line 29 is reached.
\<close>

lemma buy_hold_short:
  "table_length (st ! r) < 2 \<Longrightarrow> snd (buy_hold_signals st r) = Inl IndexError"
  by (simp add: buy_hold_signals_def Let_def)





end
